theory Spec2Isabelle
  imports Complex_Main
begin

section \<open>Python values\<close>

text \<open>
  The server (src/notion_mcp/server.py) works on decoded JSON: the tool arguments and
  the bodies of the Notion API's replies. A value is \<open>None\<close>, a bool, an int, a
  finite float (the rational it denotes), a str, a list or a dict. A dict is an
  association list in insertion order whose keys are pairwise different; decoded JSON
  has str keys, and \<open>create_block_content\<close> is the one place that can build another
  key. A str is the list of the bytes of its UTF-8 encoding: emptiness, equality and
  the removal of the ASCII hyphen are the same on bytes and on code points.
\<close>

datatype pyval =
    PNone
  | PBool bool
  | PInt int
  | PFloat rat
  | PStr string
  | PList "pyval list"
  | PDict "(pyval \<times> pyval) list"

datatype text_part =
    Lit string
  | Str pyval
  | Dumps pyval

text \<open>
  A text is the sequence of the parts of an f-string: \<open>Lit s\<close> is literal text,
  \<open>Str v\<close> is \<open>str(v)\<close> (a replacement field \<open>{v}\<close>), and \<open>Dumps v\<close> is
  \<open>json.dumps(v, indent=2, ensure_ascii=False)\<close>.
\<close>

type_synonym ftext = "text_part list"

text \<open>
  The exceptions the code can raise. \<open>HTTPError\<close> is \<open>httpx.HTTPError\<close> with
  \<open>str(e)\<close>; \<open>ValueError\<close> carries its message; \<open>InvalidURL\<close> is
  \<open>httpx.InvalidURL\<close>, which is not an \<open>HTTPError\<close>.
\<close>

datatype py_error =
    AttributeError
  | TypeError
  | KeyError
  | JSONDecodeError
  | ValueError ftext
  | InvalidURL
  | HTTPError string

definition andThen :: "py_error + 'a \<Rightarrow> ('a \<Rightarrow> py_error + 'b) \<Rightarrow> py_error + 'b" where
  "andThen r f = (case r of Inl e \<Rightarrow> Inl e | Inr v \<Rightarrow> f v)"

fun map_err :: "('a \<Rightarrow> py_error + 'b) \<Rightarrow> 'a list \<Rightarrow> py_error + 'b list" where
  "map_err f [] = Inr []"
| "map_err f (x # xs) =
     (case f x of
        Inl e \<Rightarrow> Inl e
      | Inr y \<Rightarrow> (case map_err f xs of Inl e \<Rightarrow> Inl e | Inr ys \<Rightarrow> Inr (y # ys)))"

text \<open>Truth value testing: \<open>not v\<close> is \<open>\<not> truthy v\<close>.\<close>

fun truthy :: "pyval \<Rightarrow> bool" where
  "truthy PNone = False"
| "truthy (PBool b) = b"
| "truthy (PInt i) = (i \<noteq> 0)"
| "truthy (PFloat r) = (r \<noteq> 0)"
| "truthy (PStr s) = (s \<noteq> [])"
| "truthy (PList xs) = (xs \<noteq> [])"
| "truthy (PDict d) = (d \<noteq> [])"

text \<open>Lists and dicts are unhashable: as a dict key they raise \<open>TypeError\<close>.\<close>

fun hashable :: "pyval \<Rightarrow> bool" where
  "hashable (PList xs) = False"
| "hashable (PDict d) = False"
| "hashable v = True"

text \<open>
  Equality of hashable values, as a dict compares its keys: bools, ints and floats
  compare by their numeric value (\<open>True == 1\<close>, \<open>1.0 == 1\<close>), everything else
  structurally.
\<close>

fun py_num :: "pyval \<Rightarrow> rat option" where
  "py_num (PBool b) = Some (if b then 1 else 0)"
| "py_num (PInt i) = Some (of_int i)"
| "py_num (PFloat r) = Some r"
| "py_num v = None"

definition key_eq :: "pyval \<Rightarrow> pyval \<Rightarrow> bool" where
  "key_eq a b =
     (case py_num a of
        Some x \<Rightarrow> (case py_num b of Some y \<Rightarrow> x = y | None \<Rightarrow> False)
      | None \<Rightarrow> (case py_num b of Some y \<Rightarrow> False | None \<Rightarrow> a = b))"

fun dict_lookup :: "(pyval \<times> pyval) list \<Rightarrow> pyval \<Rightarrow> pyval option" where
  "dict_lookup [] k = None"
| "dict_lookup ((k', v) # d) k = (if key_eq k' k then Some v else dict_lookup d k)"

text \<open>
  Storing under a key: an existing key keeps its place and its key object and takes
  the new value, a new key goes to the end. A dict display \<open>{k1: v1, k2: v2, ...}\<close>
  stores its items from left to right.
\<close>

fun dict_store :: "(pyval \<times> pyval) list \<Rightarrow> pyval \<Rightarrow> pyval \<Rightarrow> (pyval \<times> pyval) list" where
  "dict_store [] k v = [(k, v)]"
| "dict_store ((k', v') # d) k v =
     (if key_eq k' k then (k', v) # d else (k', v') # dict_store d k v)"

text \<open>\<open>obj.get(key, default)\<close>; only a dict has the method.\<close>

definition py_get :: "pyval \<Rightarrow> pyval \<Rightarrow> pyval \<Rightarrow> py_error + pyval" where
  "py_get obj k dflt =
     (case obj of
        PDict d \<Rightarrow>
          (if hashable k
           then (case dict_lookup d k of Some v \<Rightarrow> Inr v | None \<Rightarrow> Inr dflt)
           else Inl TypeError)
      | _ \<Rightarrow> Inl AttributeError)"

text \<open>
  \<open>obj[key]\<close> for a str key: a dict without the key raises \<open>KeyError\<close>; a list or
  a str takes integer indices only, the other values are not subscriptable.
\<close>

definition py_subscript :: "pyval \<Rightarrow> string \<Rightarrow> py_error + pyval" where
  "py_subscript obj k =
     (case obj of
        PDict d \<Rightarrow> (case dict_lookup d (PStr k) of Some v \<Rightarrow> Inr v | None \<Rightarrow> Inl KeyError)
      | _ \<Rightarrow> Inl TypeError)"

text \<open>
  Iteration (\<open>for x in obj\<close>): a list gives its items, a dict its keys, a str its
  one-character strings; the other values are not iterable.
\<close>

definition py_iter :: "pyval \<Rightarrow> py_error + pyval list" where
  "py_iter obj =
     (case obj of
        PList xs \<Rightarrow> Inr xs
      | PDict d \<Rightarrow> Inr (map fst d)
      | PStr s \<Rightarrow> Inr (map (\<lambda>c. PStr [c]) s)
      | _ \<Rightarrow> Inl TypeError)"

text \<open>\<open>obj.items()\<close>; only a dict has the method.\<close>

definition py_items :: "pyval \<Rightarrow> py_error + (pyval \<times> pyval) list" where
  "py_items obj = (case obj of PDict d \<Rightarrow> Inr d | _ \<Rightarrow> Inl AttributeError)"

text \<open>\<open>sep.join(items)\<close>: every item must be a str.\<close>

fun join_strs :: "string \<Rightarrow> string list \<Rightarrow> string" where
  "join_strs sep [] = []"
| "join_strs sep [s] = s"
| "join_strs sep (s # t # ss) = s @ sep @ join_strs sep (t # ss)"

definition str_of :: "pyval \<Rightarrow> py_error + string" where
  "str_of v = (case v of PStr s \<Rightarrow> Inr s | _ \<Rightarrow> Inl TypeError)"

definition py_join :: "string \<Rightarrow> pyval list \<Rightarrow> py_error + pyval" where
  "py_join sep items = andThen (map_err str_of items) (\<lambda>ss. Inr (PStr (join_strs sep ss)))"

text \<open>\<open>obj.replace('-', '')\<close>; among the values only a str has the method.\<close>

definition py_replace_hyphen :: "pyval \<Rightarrow> py_error + string" where
  "py_replace_hyphen obj =
     (case obj of
        PStr s \<Rightarrow> Inr (filter (\<lambda>c. c \<noteq> CHR ''-'') s)
      | _ \<Rightarrow> Inl AttributeError)"

section \<open>The property codec\<close>

text \<open>\<open>extract_multi_select\<close>, lines 443 to 448.\<close>

definition extract_multi_select :: "pyval \<Rightarrow> py_error + pyval" where
  "extract_multi_select property_data =
     (if \<not> truthy property_data then Inr (PList [])
      else andThen (py_get property_data (PStr ''type'') PNone) (\<lambda>t.
        if t \<noteq> PStr ''multi_select'' then Inr (PList [])
        else andThen (py_get property_data (PStr ''multi_select'') (PList [])) (\<lambda>items.
             andThen (py_iter items) (\<lambda>its.
             andThen (map_err (\<lambda>item. py_get item (PStr ''name'') (PStr '''')) its) (\<lambda>names.
               Inr (PList names))))))"

text \<open>\<open>extract_select\<close>, lines 450 to 456.\<close>

definition extract_select :: "pyval \<Rightarrow> py_error + pyval" where
  "extract_select property_data =
     (if \<not> truthy property_data then Inr (PStr '''')
      else andThen (py_get property_data (PStr ''type'') PNone) (\<lambda>t.
        if t \<noteq> PStr ''select'' then Inr (PStr '''')
        else andThen (py_get property_data (PStr ''select'') (PDict [])) (\<lambda>select_data.
          if truthy select_data then py_get select_data (PStr ''name'') (PStr '''')
          else Inr (PStr ''''))))"

text \<open>\<open>extract_text_from_title\<close>, lines 458 to 463.\<close>

definition extract_text_from_title :: "pyval \<Rightarrow> py_error + pyval" where
  "extract_text_from_title title_property =
     (if \<not> truthy title_property then Inr (PStr '''')
      else andThen (py_get title_property (PStr ''title'') (PList [])) (\<lambda>title_parts.
        if truthy title_parts
        then andThen (py_iter title_parts) (\<lambda>parts.
             andThen (map_err (\<lambda>part. py_get part (PStr ''plain_text'') (PStr '''')) parts)
               (py_join '' ''))
        else Inr (PStr '''')))"

text \<open>\<open>format_property_value\<close>, lines 465 to 487.\<close>

definition format_property_value :: "pyval \<Rightarrow> py_error + pyval" where
  "format_property_value property_data =
     (if \<not> truthy property_data then Inr PNone
      else andThen (py_get property_data (PStr ''type'') PNone) (\<lambda>prop_type.
        if prop_type = PStr ''title'' then extract_text_from_title property_data
        else if prop_type = PStr ''rich_text'' then
          andThen (py_get property_data (PStr ''rich_text'') (PList [])) (\<lambda>rich.
          andThen (py_iter rich) (\<lambda>parts.
          andThen (map_err (\<lambda>part. py_get part (PStr ''plain_text'') (PStr '''')) parts)
            (py_join '' '')))
        else if prop_type = PStr ''select'' then
          andThen (py_get property_data (PStr ''select'') PNone) (\<lambda>select_data.
            if truthy select_data then py_get select_data (PStr ''name'') PNone
            else Inr PNone)
        else if prop_type = PStr ''multi_select'' then
          andThen (py_get property_data (PStr ''multi_select'') (PList [])) (\<lambda>items.
          andThen (py_iter items) (\<lambda>its.
          andThen (map_err (\<lambda>item. py_get item (PStr ''name'') PNone) its) (\<lambda>names.
            Inr (PList names))))
        else if prop_type = PStr ''date'' then
          andThen (py_get property_data (PStr ''date'') (PDict [])) (\<lambda>date_data.
            if truthy date_data
            then andThen (py_get date_data (PStr ''start'') PNone) (\<lambda>start.
                 andThen (py_get date_data (PStr ''end'') PNone) (\<lambda>end_value.
                   Inr (PDict [(PStr ''start'', start), (PStr ''end'', end_value)])))
            else Inr PNone)
        else py_get property_data prop_type PNone))"

section \<open>The block codec\<close>

text \<open>
  \<open>format_block\<close>, lines 489 to 516. The two text branches (lines 496 and 504) build
  the same dict; \<open>block_type in [...]\<close> and \<open>==\<close> compare with str literals.
\<close>

definition format_block_text :: "pyval \<Rightarrow> pyval \<Rightarrow> py_error + pyval" where
  "format_block_text block_type content =
     andThen (py_get content (PStr ''rich_text'') (PList [])) (\<lambda>rich.
     andThen (py_iter rich) (\<lambda>texts.
     andThen (map_err (\<lambda>text. py_get text (PStr ''plain_text'') (PStr '''')) texts) (\<lambda>frags.
     andThen (py_join '' '' frags) (\<lambda>joined.
       Inr (PDict [(PStr ''type'', block_type), (PStr ''text'', joined)])))))"

definition format_block :: "pyval \<Rightarrow> py_error + pyval" where
  "format_block block =
     andThen (py_get block (PStr ''type'') PNone) (\<lambda>block_type.
       if \<not> truthy block_type then Inr PNone
       else andThen (py_get block block_type (PDict [])) (\<lambda>content.
         if block_type \<in> set [PStr ''paragraph'', PStr ''heading_1'', PStr ''heading_2'',
              PStr ''heading_3'']
         then format_block_text block_type content
         else if block_type = PStr ''bulleted_list_item''
               \<or> block_type = PStr ''numbered_list_item''
         then format_block_text block_type content
         else Inr (PDict [(PStr ''type'', block_type), (PStr ''content'', content)])))"

text \<open>
  \<open>create_block_content\<close>, lines 518 to 533. The dict display has the computed key
  \<open>block_type\<close> last: an unhashable \<open>block_type\<close> raises \<open>TypeError\<close>, and one
  equal to \<open>"type"\<close> or \<open>"object"\<close> replaces that item's value.
\<close>

definition create_block_content :: "pyval \<Rightarrow> pyval \<Rightarrow> py_error + pyval" where
  "create_block_content block_type text =
     (if hashable block_type
      then Inr (PDict (dict_store
             [(PStr ''type'', block_type), (PStr ''object'', PStr ''block'')]
             block_type
             (PDict [(PStr ''rich_text'',
                PList [PDict [(PStr ''type'', PStr ''text''),
                              (PStr ''text'', PDict [(PStr ''content'', text)])]])])))
      else Inl TypeError)"

section \<open>The external client\<close>

text \<open>
  Lines 33 to 49. \<open>NOTION_API_KEY\<close> and \<open>DATABASE_ID\<close> are read from the
  environment at startup and never change; the module refuses to load when either is
  empty.
\<close>

record config =
  NOTION_API_KEY :: string
  DATABASE_ID :: string

definition NOTION_VERSION :: string where
  "NOTION_VERSION = ''2022-06-28''"

definition NOTION_BASE_URL :: string where
  "NOTION_BASE_URL = ''https://api.notion.com/v1''"

definition headers :: "config \<Rightarrow> pyval" where
  "headers cfg =
     PDict [(PStr ''Authorization'', PStr (''Bearer '' @ NOTION_API_KEY cfg)),
            (PStr ''Content-Type'', PStr ''application/json''),
            (PStr ''Notion-Version'', PStr NOTION_VERSION)]"

datatype http_method = GET | POST | PATCH

record request =
  req_method :: http_method
  req_url :: ftext
  req_headers :: pyval
  req_json :: "pyval option"

text \<open>
  What the Notion API does with a request is not the server's code: it is a parameter
  of the model. \<open>Failed msg\<close> is an \<open>httpx.HTTPError\<close> with \<open>str(e) = msg\<close>,
  raised by the request itself (a transport failure) or by \<open>raise_for_status()\<close> (a
  status that is not a success). \<open>Replied body\<close> is a response on which
  \<open>raise_for_status()\<close> does not raise;
  \<open>body\<close> is what \<open>response.json()\<close> returns, \<open>None\<close> when the body is not JSON
  (\<open>json()\<close> then raises \<open>JSONDecodeError\<close>, which is not an \<open>HTTPError\<close>).
  \<open>Refused\<close> is the client refusing the request before anything is sent:
  \<open>client.post\<close>, \<open>get\<close> or \<open>patch\<close> raises \<open>httpx.InvalidURL\<close> on a URL
  it cannot parse (one with a control character, as \<open>page_id\<close> may put there).
  The outcome is a function of the request: no handler issues the same request twice.
  The headers are the same dict on every request; the \<open>async with\<close> blocks and
  \<open>await\<close> have no effect on the results.
\<close>

datatype outcome = Failed string | Refused | Replied "pyval option"

type_synonym world = "request \<Rightarrow> outcome"

text \<open>
  A computation that talks to the API returns its result, or the exception it raises,
  together with the requests the client took up, oldest first; a refused request is
  not among them.
\<close>

type_synonym 'a io = "(py_error + 'a) \<times> request list"

text \<open>\<open>get_page_content\<close>, lines 172 to 194.\<close>

definition get_page_content :: "config \<Rightarrow> world \<Rightarrow> pyval \<Rightarrow> pyval io" where
  "get_page_content cfg w page_id =
     (let req1 = \<lparr>req_method = GET,
                  req_url = [Lit NOTION_BASE_URL, Lit ''/pages/'', Str page_id],
                  req_headers = headers cfg, req_json = None\<rparr>;
          req2 = \<lparr>req_method = GET,
                  req_url = [Lit NOTION_BASE_URL, Lit ''/blocks/'', Str page_id,
                             Lit ''/children''],
                  req_headers = headers cfg, req_json = None\<rparr>
      in case w req1 of
           Failed msg \<Rightarrow> (Inl (HTTPError msg), [req1])
         | Refused \<Rightarrow> (Inl InvalidURL, [])
         | Replied None \<Rightarrow> (Inl JSONDecodeError, [req1])
         | Replied (Some page_data) \<Rightarrow>
             (case w req2 of
                Failed msg \<Rightarrow> (Inl (HTTPError msg), [req1, req2])
              | Refused \<Rightarrow> (Inl InvalidURL, [req1])
              | Replied None \<Rightarrow> (Inl JSONDecodeError, [req1, req2])
              | Replied (Some blocks_data) \<Rightarrow>
                  (andThen (py_get page_data (PStr ''properties'') (PDict [])) (\<lambda>props.
                   andThen (py_get blocks_data (PStr ''results'') (PList [])) (\<lambda>results.
                     Inr (PDict [(PStr ''properties'', props), (PStr ''content'', results)]))),
                   [req1, req2])))"

section \<open>The tool catalog\<close>

text \<open>
  \<open>list_tools\<close>, lines 70 to 170: each tool's name with the \<open>required\<close> list of its
  input schema.
\<close>

definition list_tools :: "(string \<times> string list) list" where
  "list_tools =
     [(''show_all_notion_pages'', []),
      (''notion_update_status'', [''page_id'', ''target_status'']),
      (''notion_read_page_content'', [''page_id'']),
      (''notion_update_page_content'', [''page_id'', ''content'']),
      (''notion_add_comment'', [''page_id'', ''comment''])]"

definition known_tools :: "string list" where
  "known_tools = map fst list_tools"

definition required_fields :: "string \<Rightarrow> string list" where
  "required_fields name = (case map_of list_tools name of Some fs \<Rightarrow> fs | None \<Rightarrow> [])"

section \<open>The dispatcher\<close>

text \<open>
  \<open>call_tool\<close> returns a list with one \<open>TextContent(type="text", text=...)\<close>.
  \<open>logger.error\<close> writes to the log only and is left out.
\<close>

datatype content = TextContent ftext

text \<open>
  \<open>try: ... except httpx.HTTPError as e: return [TextContent(type="text", text=h e)]\<close>:
  an \<open>HTTPError\<close> becomes a result, every other exception propagates.
\<close>

definition except_HTTPError :: "content list io \<Rightarrow> (string \<Rightarrow> ftext) \<Rightarrow> content list io" where
  "except_HTTPError r h =
     (case fst r of
        Inl (HTTPError msg) \<Rightarrow> (Inr [TextContent (h msg)], snd r)
      | _ \<Rightarrow> r)"

text \<open>The loop body of lines 222 to 232: one page of the listing.\<close>

definition format_page :: "pyval \<Rightarrow> py_error + pyval" where
  "format_page page =
     andThen (py_get page (PStr ''properties'') (PDict [])) (\<lambda>props1.
     andThen (py_get props1 (PStr ''Title'') (PDict [])) (\<lambda>title_property.
     andThen (extract_text_from_title title_property) (\<lambda>title.
     andThen (py_get page (PStr ''id'') (PStr '''')) (\<lambda>page_id.
     andThen (py_get page (PStr ''properties'') (PDict [])) (\<lambda>props2.
     andThen (py_get props2 (PStr ''Clients'') (PDict [])) (\<lambda>clients_property.
     andThen (extract_multi_select clients_property) (\<lambda>clients.
     andThen (py_get page (PStr ''created_time'') (PStr '''')) (\<lambda>created_time.
     andThen (py_get page (PStr ''last_edited_time'') (PStr '''')) (\<lambda>last_edited_time.
     andThen (py_get page (PStr ''id'') (PStr '''')) (\<lambda>url_id.
     andThen (py_replace_hyphen url_id) (\<lambda>stripped.
     andThen (py_get page (PStr ''properties'') (PDict [])) (\<lambda>props3.
     andThen (py_get props3 (PStr ''Status'') (PDict [])) (\<lambda>status_property.
     andThen (extract_select status_property) (\<lambda>status.
       Inr (PDict [(PStr ''id'', page_id),
                   (PStr ''title'', title),
                   (PStr ''clients'', clients),
                   (PStr ''Created time'', created_time),
                   (PStr ''Last edited time'', last_edited_time),
                   (PStr ''url'', PStr (''https://www.notion.so/'' @ stripped)),
                   (PStr ''status'', status)])))))))))))))))"

text \<open>\<open>show_all_notion_pages\<close>, lines 199 to 247.\<close>

definition query_request :: "config \<Rightarrow> request" where
  "query_request cfg =
     \<lparr>req_method = POST,
      req_url = [Lit NOTION_BASE_URL, Lit ''/databases/'', Lit (DATABASE_ID cfg), Lit ''/query''],
      req_headers = headers cfg,
      req_json = Some (PDict
        [(PStr ''page_size'', PInt 500),
         (PStr ''sorts'', PList [PDict
            [(PStr ''property'', PStr ''Created time''),
             (PStr ''timestamp'', PStr ''created_time''),
             (PStr ''direction'', PStr ''descending'')]])])\<rparr>"

definition show_all_notion_pages :: "config \<Rightarrow> world \<Rightarrow> pyval \<Rightarrow> content list io" where
  "show_all_notion_pages cfg w arguments =
     except_HTTPError
       (case w (query_request cfg) of
          Failed msg \<Rightarrow> (Inl (HTTPError msg), [query_request cfg])
        | Refused \<Rightarrow> (Inl InvalidURL, [])
        | Replied None \<Rightarrow> (Inl JSONDecodeError, [query_request cfg])
        | Replied (Some pages) \<Rightarrow>
            (andThen (py_get pages (PStr ''results'') (PList [])) (\<lambda>results.
             andThen (py_iter results) (\<lambda>ps.
             andThen (map_err format_page ps) (\<lambda>formatted_pages.
               Inr [TextContent [Dumps (PList formatted_pages)]]))),
             [query_request cfg]))
       (\<lambda>msg. [Lit ''Error listing pages: '', Lit msg])"

text \<open>\<open>notion_update_status\<close>, lines 249 to 296.\<close>

definition status_request :: "config \<Rightarrow> pyval \<Rightarrow> pyval \<Rightarrow> request" where
  "status_request cfg page_id target_status =
     \<lparr>req_method = PATCH,
      req_url = [Lit NOTION_BASE_URL, Lit ''/pages/'', Str page_id],
      req_headers = headers cfg,
      req_json = Some (PDict
        [(PStr ''properties'', PDict
           [(PStr ''Status'', PDict
              [(PStr ''status'', PDict [(PStr ''name'', target_status)])])])])\<rparr>"

definition notion_update_status :: "config \<Rightarrow> world \<Rightarrow> pyval \<Rightarrow> content list io" where
  "notion_update_status cfg w arguments =
     except_HTTPError
       (case py_get arguments (PStr ''page_id'') PNone of
          Inl e \<Rightarrow> (Inl e, [])
        | Inr page_id \<Rightarrow>
       (case py_get arguments (PStr ''target_status'') PNone of
          Inl e \<Rightarrow> (Inl e, [])
        | Inr target_status \<Rightarrow>
            if \<not> truthy page_id \<or> \<not> truthy target_status
            then (Inr [TextContent [Lit ''Error: Both page_id and target_status are required.'']],
                  [])
            else (case w (status_request cfg page_id target_status) of
                    Failed msg \<Rightarrow>
                      (Inl (HTTPError msg), [status_request cfg page_id target_status])
                  | Refused \<Rightarrow> (Inl InvalidURL, [])
                  | Replied body \<Rightarrow>
                      (Inr [TextContent [Lit ''Successfully updated page status to '',
                                         Lit [CHR 0x27], Str target_status, Lit [CHR 0x27],
                                         Lit ''.'']],
                       [status_request cfg page_id target_status]))))
       (\<lambda>msg. [Lit ''Error updating status: '', Lit msg, Lit [CHR 0x0A],
               Lit ''Possible issues:'', Lit [CHR 0x0A],
               Lit ''1. Invalid page ID'', Lit [CHR 0x0A],
               Lit ''2. Invalid status value (must match one of the select options in your database)'',
               Lit [CHR 0x0A],
               Lit ''3. API permission issues (make sure your integration has write access)''])"

text \<open>\<open>notion_read_page_content\<close>, lines 298 to 334.\<close>

definition notion_read_page_content :: "config \<Rightarrow> world \<Rightarrow> pyval \<Rightarrow> content list io" where
  "notion_read_page_content cfg w arguments =
     except_HTTPError
       (case py_get arguments (PStr ''page_id'') PNone of
          Inl e \<Rightarrow> (Inl e, [])
        | Inr page_id \<Rightarrow>
            if \<not> truthy page_id
            then (Inr [TextContent [Lit ''Error: page_id is required.'']], [])
            else (case get_page_content cfg w page_id of
                    (Inl e, reqs) \<Rightarrow> (Inl e, reqs)
                  | (Inr page_data, reqs) \<Rightarrow>
                      (andThen (py_subscript page_data ''properties'') (\<lambda>props1.
                       andThen (py_get props1 (PStr ''Title'') (PDict [])) (\<lambda>title_property.
                       andThen (extract_text_from_title title_property) (\<lambda>title.
                       andThen (py_subscript page_data ''properties'') (\<lambda>props2.
                       andThen (py_items props2) (\<lambda>items.
                       andThen (map_err (\<lambda>(k, v).
                                  andThen (format_property_value v) (\<lambda>fv. Inr (k, fv))) items)
                         (\<lambda>properties.
                       andThen (py_subscript page_data ''content'') (\<lambda>blocks_value.
                       andThen (py_iter blocks_value) (\<lambda>bs.
                       andThen (map_err format_block bs) (\<lambda>blocks.
                         Inr [TextContent [Dumps (PDict
                           [(PStr ''title'', title),
                            (PStr ''properties'', PDict properties),
                            (PStr ''blocks'', PList blocks)])]]))))))))),
                       reqs)))
       (\<lambda>msg. [Lit ''Error reading page content: '', Lit msg])"

text \<open>\<open>notion_update_page_content\<close>, lines 336 to 379.\<close>

definition children_request :: "config \<Rightarrow> pyval \<Rightarrow> pyval list \<Rightarrow> request" where
  "children_request cfg page_id blocks =
     \<lparr>req_method = PATCH,
      req_url = [Lit NOTION_BASE_URL, Lit ''/blocks/'', Str page_id, Lit ''/children''],
      req_headers = headers cfg,
      req_json = Some (PDict [(PStr ''children'', PList blocks)])\<rparr>"

definition notion_update_page_content :: "config \<Rightarrow> world \<Rightarrow> pyval \<Rightarrow> content list io" where
  "notion_update_page_content cfg w arguments =
     except_HTTPError
       (case py_get arguments (PStr ''page_id'') PNone of
          Inl e \<Rightarrow> (Inl e, [])
        | Inr page_id \<Rightarrow>
       (case py_get arguments (PStr ''content'') PNone of
          Inl e \<Rightarrow> (Inl e, [])
        | Inr content \<Rightarrow>
            if \<not> truthy page_id \<or> \<not> truthy content
            then (Inr [TextContent [Lit ''Error: Both page_id and content are required.'']], [])
            else (case andThen (py_iter content)
                         (map_err (\<lambda>block.
                            andThen (py_subscript block ''type'') (\<lambda>block_type.
                            andThen (py_subscript block ''text'') (\<lambda>text.
                              create_block_content block_type text)))) of
                    Inl e \<Rightarrow> (Inl e, [])
                  | Inr blocks \<Rightarrow>
                      (case w (children_request cfg page_id blocks) of
                         Failed msg \<Rightarrow>
                           (Inl (HTTPError msg), [children_request cfg page_id blocks])
                       | Refused \<Rightarrow> (Inl InvalidURL, [])
                       | Replied body \<Rightarrow>
                           (Inr [TextContent [Lit ''Successfully updated page content with '',
                                              Str (PInt (int (length blocks))),
                                              Lit '' blocks.'']],
                            [children_request cfg page_id blocks])))))
       (\<lambda>msg. [Lit ''Error updating page content: '', Lit msg])"

text \<open>
  \<open>notion_add_comment\<close>, lines 381 to 438. The default icon is U+1F4AC, in UTF-8
  the bytes F0 9F 92 AC.
\<close>

definition default_icon :: string where
  "default_icon = [CHR 0xF0, CHR 0x9F, CHR 0x92, CHR 0xAC]"

definition comment_block :: "pyval \<Rightarrow> pyval \<Rightarrow> pyval" where
  "comment_block comment icon =
     PDict [(PStr ''type'', PStr ''callout''),
            (PStr ''object'', PStr ''block''),
            (PStr ''callout'', PDict
               [(PStr ''rich_text'',
                   PList [PDict [(PStr ''type'', PStr ''text''),
                                 (PStr ''text'', PDict [(PStr ''content'', comment)])]]),
                (PStr ''icon'', PDict [(PStr ''type'', PStr ''emoji''), (PStr ''emoji'', icon)]),
                (PStr ''color'', PStr ''gray_background'')])]"

definition notion_add_comment :: "config \<Rightarrow> world \<Rightarrow> pyval \<Rightarrow> content list io" where
  "notion_add_comment cfg w arguments =
     except_HTTPError
       (case py_get arguments (PStr ''page_id'') PNone of
          Inl e \<Rightarrow> (Inl e, [])
        | Inr page_id \<Rightarrow>
       (case py_get arguments (PStr ''comment'') PNone of
          Inl e \<Rightarrow> (Inl e, [])
        | Inr comment \<Rightarrow>
       (case py_get arguments (PStr ''icon'') (PStr default_icon) of
          Inl e \<Rightarrow> (Inl e, [])
        | Inr icon \<Rightarrow>
            if \<not> truthy page_id \<or> \<not> truthy comment
            then (Inr [TextContent [Lit ''Error: Both page_id and comment are required.'']], [])
            else (case w (children_request cfg page_id [comment_block comment icon]) of
                    Failed msg \<Rightarrow>
                      (Inl (HTTPError msg),
                       [children_request cfg page_id [comment_block comment icon]])
                  | Refused \<Rightarrow> (Inl InvalidURL, [])
                  | Replied body \<Rightarrow>
                      (Inr [TextContent [Lit ''Successfully added comment to the page.'']],
                       [children_request cfg page_id [comment_block comment icon]])))))
       (\<lambda>msg. [Lit ''Error adding comment: '', Lit msg])"

text \<open>\<open>call_tool\<close>, lines 196 to 441.\<close>

definition call_tool :: "config \<Rightarrow> world \<Rightarrow> string \<Rightarrow> pyval \<Rightarrow> content list io" where
  "call_tool cfg w name arguments =
     (if name = ''show_all_notion_pages'' then show_all_notion_pages cfg w arguments
      else if name = ''notion_update_status'' then notion_update_status cfg w arguments
      else if name = ''notion_read_page_content'' then notion_read_page_content cfg w arguments
      else if name = ''notion_update_page_content'' then notion_update_page_content cfg w arguments
      else if name = ''notion_add_comment'' then notion_add_comment cfg w arguments
      else (Inl (ValueError [Lit ''Unknown tool: '', Lit name]), []))"

section \<open>Example inputs\<close>

text \<open>A configuration and two behaviours of the API, for the concrete instances below.\<close>

definition example_config :: config where
  "example_config = \<lparr>NOTION_API_KEY = ''secret'', DATABASE_ID = ''db1''\<rparr>"

definition unreachable_api :: world where
  "unreachable_api req = Failed ''503 Service Unavailable''"

definition accepting_api :: world where
  "accepting_api req = Replied (Some (PDict []))"

text \<open>
  A client that, as httpx does, refuses a URL that holds an ASCII control character
  and lets every other request through to an API that replies.
\<close>

fun part_text :: "text_part \<Rightarrow> string" where
  "part_text (Lit s) = s"
| "part_text (Str (PStr s)) = s"
| "part_text p = []"

definition control_char :: "char \<Rightarrow> bool" where
  "control_char c \<longleftrightarrow> (of_char c :: nat) < 32 \<or> (of_char c :: nat) = 127"

definition url_checking_api :: world where
  "url_checking_api req =
     (if list_ex control_char (concat (map part_text (req_url req))) then Refused
      else Replied (Some (PDict [])))"

section \<open>Auxiliary notions for the statements\<close>

text \<open>
  An argument is not supplied when its key is missing from the arguments or its value
  is false under truth value testing (\<open>None\<close>, \<open>""\<close>, \<open>[]\<close>, \<open>{}\<close>, \<open>0\<close>,
  \<open>False\<close>).
\<close>

definition not_supplied :: "(pyval \<times> pyval) list \<Rightarrow> string \<Rightarrow> bool" where
  "not_supplied d k = (case dict_lookup d (PStr k) of None \<Rightarrow> True | Some v \<Rightarrow> \<not> truthy v)"

text \<open>The block types that \<open>format_block\<close> flattens to text (lines 496 and 504).\<close>

definition text_like :: "string list" where
  "text_like = [''paragraph'', ''heading_1'', ''heading_2'', ''heading_3'',
                ''bulleted_list_item'', ''numbered_list_item'']"

text \<open>
  The plain-text fragment of a rich-text run of the Notion API: the str under the
  run's key \<open>plain_text\<close>.
\<close>

fun run_text :: "pyval \<Rightarrow> string option" where
  "run_text (PDict r) =
     (case dict_lookup r (PStr ''plain_text'') of Some (PStr s) \<Rightarrow> Some s | _ \<Rightarrow> None)"
| "run_text v = None"

section \<open>The listing, as the specification words it\<close>

text \<open>
  Reading a page object of the Notion API without the code's defaults: the value under
  a key (\<open>None\<close> when the object has no such key), the items of a list, the text of a
  str.
\<close>

fun at_key :: "pyval \<Rightarrow> string \<Rightarrow> pyval" where
  "at_key (PDict d) k = (case dict_lookup d (PStr k) of Some v \<Rightarrow> v | None \<Rightarrow> PNone)"
| "at_key v k = PNone"

fun items_of :: "pyval \<Rightarrow> pyval list" where
  "items_of (PList xs) = xs"
| "items_of v = []"

fun text_of :: "pyval \<Rightarrow> string" where
  "text_of (PStr s) = s"
| "text_of v = []"

fun is_str :: "pyval \<Rightarrow> bool" where
  "is_str (PStr s) = True"
| "is_str v = False"

fun is_dict :: "pyval \<Rightarrow> bool" where
  "is_dict (PDict d) = True"
| "is_dict v = False"

fun is_list :: "pyval \<Rightarrow> bool" where
  "is_list (PList xs) = True"
| "is_list v = False"

text \<open>
  The shapes the Notion API gives the three properties the listing reads: a title
  property holds a list of rich-text runs; a multi-select property is tagged
  \<open>multi_select\<close> and holds a list of options, each with a name; a select property
  is tagged \<open>select\<close> and holds \<open>None\<close> (nothing selected) or one option with a
  name.
\<close>

definition title_property :: "pyval \<Rightarrow> bool" where
  "title_property v \<longleftrightarrow>
     is_dict v \<and> is_list (at_key v ''title'')
     \<and> list_all (\<lambda>run. run_text run \<noteq> None) (items_of (at_key v ''title''))"

definition multi_select_property :: "pyval \<Rightarrow> bool" where
  "multi_select_property v \<longleftrightarrow>
     is_dict v \<and> at_key v ''type'' = PStr ''multi_select''
     \<and> is_list (at_key v ''multi_select'')
     \<and> list_all (\<lambda>option. is_dict option \<and> is_str (at_key option ''name''))
          (items_of (at_key v ''multi_select''))"

definition select_property :: "pyval \<Rightarrow> bool" where
  "select_property v \<longleftrightarrow>
     is_dict v \<and> at_key v ''type'' = PStr ''select''
     \<and> (at_key v ''select'' = PNone
          \<or> is_dict (at_key v ''select'') \<and> is_str (at_key (at_key v ''select'') ''name''))"

text \<open>
  A page object: an id and the two timestamps, all str, and properties with a title
  property "Title", a multi-select property "Clients" and a select property "Status".
\<close>

definition notion_page :: "pyval \<Rightarrow> bool" where
  "notion_page page \<longleftrightarrow>
     is_dict page \<and> is_str (at_key page ''id'')
     \<and> is_str (at_key page ''created_time'') \<and> is_str (at_key page ''last_edited_time'')
     \<and> is_dict (at_key page ''properties'')
     \<and> title_property (at_key (at_key page ''properties'') ''Title'')
     \<and> multi_select_property (at_key (at_key page ''properties'') ''Clients'')
     \<and> select_property (at_key (at_key page ''properties'') ''Status'')"

text \<open>
  The object the specification gives for a page: keys id, title, clients, Created time,
  Last edited time, url and status, where title joins the plain-text fragments of the
  "Title" property's runs with single spaces, clients are the names of the "Clients"
  options in their order, status is the name of the "Status" selection (the empty str
  when nothing is selected), and url is \<open>https://www.notion.so/\<close> followed by the id
  with every hyphen removed.
\<close>

definition listing_row :: "pyval \<Rightarrow> pyval" where
  "listing_row page =
     PDict
       [(PStr ''id'', at_key page ''id''),
        (PStr ''title'',
           PStr (join_strs '' ''
             (map (\<lambda>run. text_of (at_key run ''plain_text''))
                (items_of (at_key (at_key (at_key page ''properties'') ''Title'') ''title''))))),
        (PStr ''clients'',
           PList (map (\<lambda>option. at_key option ''name'')
             (items_of (at_key (at_key (at_key page ''properties'') ''Clients'')
                ''multi_select'')))),
        (PStr ''Created time'', at_key page ''created_time''),
        (PStr ''Last edited time'', at_key page ''last_edited_time''),
        (PStr ''url'',
           PStr (''https://www.notion.so/''
                 @ filter (\<lambda>c. c \<noteq> CHR ''-'') (text_of (at_key page ''id'')))),
        (PStr ''status'',
           if at_key (at_key (at_key page ''properties'') ''Status'') ''select'' = PNone
           then PStr []
           else at_key (at_key (at_key (at_key page ''properties'') ''Status'') ''select'')
                  ''name'')]"

text \<open>Two pages as the API returns them, and an API that answers every query with them.\<close>

definition example_page :: "string \<Rightarrow> string \<Rightarrow> pyval" where
  "example_page page_id title =
     PDict
       [(PStr ''object'', PStr ''page''),
        (PStr ''id'', PStr page_id),
        (PStr ''created_time'', PStr ''2024-05-01T09:00:00.000Z''),
        (PStr ''last_edited_time'', PStr ''2024-05-02T10:30:00.000Z''),
        (PStr ''properties'', PDict
           [(PStr ''Title'', PDict
               [(PStr ''id'', PStr ''title''), (PStr ''type'', PStr ''title''),
                (PStr ''title'', PList
                   [PDict [(PStr ''type'', PStr ''text''), (PStr ''plain_text'', PStr title)]])]),
            (PStr ''Clients'', PDict
               [(PStr ''type'', PStr ''multi_select''),
                (PStr ''multi_select'', PList
                   [PDict [(PStr ''name'', PStr ''Acme''), (PStr ''color'', PStr ''blue'')]])]),
            (PStr ''Status'', PDict
               [(PStr ''type'', PStr ''select''),
                (PStr ''select'', PDict [(PStr ''name'', PStr ''Done'')])])])]"

definition example_pages :: "pyval list" where
  "example_pages =
     [example_page ''59833787-2cf9-4fdf-8782-e53db20768a5'' ''Kickoff'',
      example_page ''0c6e1f2a-91b4-4c3d-a8e7-5f2d3b4c6a71'' ''Retro'']"

definition listing_api :: world where
  "listing_api req = Replied (Some (PDict [(PStr ''object'', PStr ''list''),
                                          (PStr ''results'', PList example_pages)]))"

section \<open>Basic facts\<close>

lemma andThen_simps [simp]:
  "andThen (Inl e) f = Inl e"
  "andThen (Inr v) f = f v"
  by (simp_all add: andThen_def)

lemma key_eq_PStr [simp]:
  "key_eq (PStr a) b \<longleftrightarrow> b = PStr a"
  "key_eq b (PStr a) \<longleftrightarrow> b = PStr a"
  by (cases b; auto simp: key_eq_def)+

lemma py_get_PDict_PStr [simp]:
  "py_get (PDict d) (PStr k) dflt =
     Inr (case dict_lookup d (PStr k) of Some v \<Rightarrow> v | None \<Rightarrow> dflt)"
  by (simp add: py_get_def split: option.splits)

lemma py_iter_PList [simp]: "py_iter (PList xs) = Inr xs"
  by (simp add: py_iter_def)

lemma map_err_total:
  "list_all (\<lambda>x. f x = Inr (g x)) xs \<Longrightarrow> map_err f xs = Inr (map g xs)"
  by (induction xs) simp_all

lemma map_err_str_of [simp]: "map_err str_of (map PStr ss) = Inr ss"
  by (induction ss) (simp_all add: str_of_def)

lemma py_join_strs [simp]: "py_join sep (map PStr ss) = Inr (PStr (join_strs sep ss))"
  by (simp add: py_join_def)

lemma except_HTTPError_simps [simp]:
  "except_HTTPError (Inr v, reqs) h = (Inr v, reqs)"
  "except_HTTPError (Inl (HTTPError msg), reqs) h = (Inr [TextContent (h msg)], reqs)"
  by (simp_all add: except_HTTPError_def)

lemma snd_except_HTTPError [simp]: "snd (except_HTTPError r h) = snd r"
  by (cases r) (auto simp: except_HTTPError_def split: sum.splits py_error.splits)

lemma except_HTTPError_never_raises_HTTPError:
  "fst (except_HTTPError r h) \<noteq> Inl (HTTPError m)"
  by (cases r) (auto simp: except_HTTPError_def split: sum.splits py_error.splits)

lemma known_tools_iff:
  "name \<in> set known_tools \<longleftrightarrow>
     name = ''show_all_notion_pages'' \<or> name = ''notion_update_status''
     \<or> name = ''notion_read_page_content'' \<or> name = ''notion_update_page_content''
     \<or> name = ''notion_add_comment''"
  by (simp add: known_tools_def list_tools_def)

lemma call_tool_simps:
  "call_tool cfg w ''show_all_notion_pages'' a = show_all_notion_pages cfg w a"
  "call_tool cfg w ''notion_update_status'' a = notion_update_status cfg w a"
  "call_tool cfg w ''notion_read_page_content'' a = notion_read_page_content cfg w a"
  "call_tool cfg w ''notion_update_page_content'' a = notion_update_page_content cfg w a"
  "call_tool cfg w ''notion_add_comment'' a = notion_add_comment cfg w a"
  by (simp_all add: call_tool_def)

lemma required_fields_simps:
  "required_fields ''show_all_notion_pages'' = []"
  "required_fields ''notion_update_status'' = [''page_id'', ''target_status'']"
  "required_fields ''notion_read_page_content'' = [''page_id'']"
  "required_fields ''notion_update_page_content'' = [''page_id'', ''content'']"
  "required_fields ''notion_add_comment'' = [''page_id'', ''comment'']"
  by (simp_all add: required_fields_def list_tools_def)

section \<open>Unknown tools\<close>

text \<open>
  C9. For every tool name outside the five known names, \<open>call_tool\<close> does not
  return a textual result: it raises \<open>ValueError("Unknown tool: <name>")\<close> to its
  caller, without issuing a request.
\<close>

theorem unknown_tool_raises:
  "name \<notin> set known_tools \<Longrightarrow>
     call_tool cfg w name arguments = (Inl (ValueError [Lit ''Unknown tool: '', Lit name]), [])"
  by (simp add: known_tools_iff call_tool_def)

theorem unknown_tool_raises_witness:
  "''notion_delete_page'' \<notin> set known_tools \<and>
   call_tool example_config accepting_api ''notion_delete_page'' (PDict []) =
     (Inl (ValueError [Lit ''Unknown tool: '', Lit ''notion_delete_page'']), [])"
proof -
  have h: "''notion_delete_page'' \<notin> set known_tools"
    by (simp add: known_tools_iff)
  from h unknown_tool_raises [OF h] show ?thesis by blast
qed

section \<open>Required arguments\<close>

lemma not_supplied_empty [simp]: "not_supplied [] k"
  by (simp add: not_supplied_def)

lemma update_status_not_supplied:
  "not_supplied d ''page_id'' \<or> not_supplied d ''target_status'' \<Longrightarrow>
   notion_update_status cfg w (PDict d) =
     (Inr [TextContent [Lit ''Error: Both page_id and target_status are required.'']], [])"
  by (auto simp: notion_update_status_def not_supplied_def split: option.splits)

lemma read_page_not_supplied:
  "not_supplied d ''page_id'' \<Longrightarrow>
   notion_read_page_content cfg w (PDict d) =
     (Inr [TextContent [Lit ''Error: page_id is required.'']], [])"
  by (auto simp: notion_read_page_content_def not_supplied_def split: option.splits)

lemma update_content_not_supplied:
  "not_supplied d ''page_id'' \<or> not_supplied d ''content'' \<Longrightarrow>
   notion_update_page_content cfg w (PDict d) =
     (Inr [TextContent [Lit ''Error: Both page_id and content are required.'']], [])"
  by (auto simp: notion_update_page_content_def not_supplied_def split: option.splits)

lemma add_comment_not_supplied:
  "not_supplied d ''page_id'' \<or> not_supplied d ''comment'' \<Longrightarrow>
   notion_add_comment cfg w (PDict d) =
     (Inr [TextContent [Lit ''Error: Both page_id and comment are required.'']], [])"
  by (auto simp: notion_add_comment_def not_supplied_def split: option.splits)

text \<open>The four handlers with required arguments, on a required argument not supplied.\<close>

lemma required_not_supplied:
  assumes "name \<in> set known_tools"
      and "field \<in> set (required_fields name)"
      and "not_supplied d field"
  shows "(name = ''notion_update_status'' \<and> call_tool cfg w name (PDict d) =
            (Inr [TextContent [Lit ''Error: Both page_id and target_status are required.'']], []))
       \<or> (name = ''notion_read_page_content'' \<and> call_tool cfg w name (PDict d) =
            (Inr [TextContent [Lit ''Error: page_id is required.'']], []))
       \<or> (name = ''notion_update_page_content'' \<and> call_tool cfg w name (PDict d) =
            (Inr [TextContent [Lit ''Error: Both page_id and content are required.'']], []))
       \<or> (name = ''notion_add_comment'' \<and> call_tool cfg w name (PDict d) =
            (Inr [TextContent [Lit ''Error: Both page_id and comment are required.'']], []))"
proof -
  from assms(1) have "name = ''show_all_notion_pages'' \<or> name = ''notion_update_status''
     \<or> name = ''notion_read_page_content'' \<or> name = ''notion_update_page_content''
     \<or> name = ''notion_add_comment''"
    by (simp only: known_tools_iff)
  then show ?thesis
  proof (elim disjE)
    assume n: "name = ''show_all_notion_pages''"
    from assms(2) have False unfolding n required_fields_simps by simp
    then show ?thesis ..
  next
    assume n: "name = ''notion_update_status''"
    from assms(2) have "field = ''page_id'' \<or> field = ''target_status''"
      unfolding n required_fields_simps by simp
    with assms(3) have a: "not_supplied d ''page_id'' \<or> not_supplied d ''target_status''"
      by auto
    show ?thesis unfolding n call_tool_simps update_status_not_supplied [OF a] by simp
  next
    assume n: "name = ''notion_read_page_content''"
    from assms(2) have "field = ''page_id''"
      unfolding n required_fields_simps by simp
    with assms(3) have a: "not_supplied d ''page_id''" by simp
    show ?thesis unfolding n call_tool_simps read_page_not_supplied [OF a] by simp
  next
    assume n: "name = ''notion_update_page_content''"
    from assms(2) have "field = ''page_id'' \<or> field = ''content''"
      unfolding n required_fields_simps by simp
    with assms(3) have a: "not_supplied d ''page_id'' \<or> not_supplied d ''content''"
      by auto
    show ?thesis unfolding n call_tool_simps update_content_not_supplied [OF a] by simp
  next
    assume n: "name = ''notion_add_comment''"
    from assms(2) have "field = ''page_id'' \<or> field = ''comment''"
      unfolding n required_fields_simps by simp
    with assms(3) have a: "not_supplied d ''page_id'' \<or> not_supplied d ''comment''"
      by auto
    show ?thesis unfolding n call_tool_simps add_comment_not_supplied [OF a] by simp
  qed
qed

lemma required_text_cases:
  assumes "(name = ''notion_update_status'' \<and> r =
            (Inr [TextContent [Lit ''Error: Both page_id and target_status are required.'']], []))
       \<or> (name = ''notion_read_page_content'' \<and> r =
            (Inr [TextContent [Lit ''Error: page_id is required.'']], []))
       \<or> (name = ''notion_update_page_content'' \<and> r =
            (Inr [TextContent [Lit ''Error: Both page_id and content are required.'']], []))
       \<or> (name = ''notion_add_comment'' \<and> r =
            (Inr [TextContent [Lit ''Error: Both page_id and comment are required.'']], []))"
  shows "\<exists>what. r = (Inr [TextContent [Lit (''Error: '' @ what @ ''required.'')]], [])"
  using assms
proof (elim disjE conjE)
  assume "r = (Inr [TextContent [Lit ''Error: Both page_id and target_status are required.'']], [])"
  then have h: "r = (Inr [TextContent [Lit (''Error: '' @ ''Both page_id and target_status are '' @ ''required.'')]], [])"
    by simp
  show ?thesis by (intro exI) (rule h)
next
  assume "r = (Inr [TextContent [Lit ''Error: page_id is required.'']], [])"
  then have h: "r = (Inr [TextContent [Lit (''Error: '' @ ''page_id is '' @ ''required.'')]], [])"
    by simp
  show ?thesis by (intro exI) (rule h)
next
  assume "r = (Inr [TextContent [Lit ''Error: Both page_id and content are required.'']], [])"
  then have h: "r = (Inr [TextContent [Lit (''Error: '' @ ''Both page_id and content are '' @ ''required.'')]], [])"
    by simp
  show ?thesis by (intro exI) (rule h)
next
  assume "r = (Inr [TextContent [Lit ''Error: Both page_id and comment are required.'']], [])"
  then have h: "r = (Inr [TextContent [Lit (''Error: '' @ ''Both page_id and comment are '' @ ''required.'')]], [])"
    by simp
  show ?thesis by (intro exI) (rule h)
qed

text \<open>
  C8. For each of the five known tools, when a field of the tool's \<open>required\<close> list
  is missing from the arguments, \<open>call_tool\<close> returns a textual error result
  ("Error: ... required.") and has issued no request. \<open>show_all_notion_pages\<close>
  requires nothing; the instance is \<open>notion_update_status\<close> without
  \<open>page_id\<close>.
\<close>

theorem missing_required_argument:
  assumes "name \<in> set known_tools"
      and "field \<in> set (required_fields name)"
      and "dict_lookup d (PStr field) = None"
  shows "\<exists>what. call_tool cfg w name (PDict d) =
           (Inr [TextContent [Lit (''Error: '' @ what @ ''required.'')]], [])"
proof -
  from assms(3) have "not_supplied d field" by (simp add: not_supplied_def)
  from required_not_supplied [OF assms(1) assms(2) this]
  show ?thesis by (rule required_text_cases)
qed

theorem missing_required_argument_witness:
  "''notion_update_status'' \<in> set known_tools
   \<and> ''page_id'' \<in> set (required_fields ''notion_update_status'')
   \<and> dict_lookup [(PStr ''target_status'', PStr ''Done'')] (PStr ''page_id'') = None
   \<and> (\<exists>what. call_tool example_config accepting_api ''notion_update_status''
                 (PDict [(PStr ''target_status'', PStr ''Done'')]) =
               (Inr [TextContent [Lit (''Error: '' @ what @ ''required.'')]], []))"
proof -
  have h1: "''notion_update_status'' \<in> set known_tools" by (simp add: known_tools_iff)
  have h2: "''page_id'' \<in> set (required_fields ''notion_update_status'')"
    by (simp add: required_fields_simps)
  have h3: "dict_lookup [(PStr ''target_status'', PStr ''Done'')] (PStr ''page_id'') = None"
    by simp
  note h4 = missing_required_argument [OF h1 h2 h3, of example_config accepting_api]
  show ?thesis by (intro conjI) (rule h1, rule h2, rule h3, rule h4)
qed

text \<open>
  C10. The checks test truth values, not presence: a required argument that is
  present with a false value (\<open>content = []\<close>, \<open>page_id = ""\<close>) gets the same
  result as the call with no arguments at all, the textual "required" error with no
  request issued.
\<close>

theorem falsy_argument_rejected:
  assumes "name \<in> set known_tools"
      and "field \<in> set (required_fields name)"
      and "dict_lookup d (PStr field) = Some v"
      and "\<not> truthy v"
  shows "call_tool cfg w name (PDict d) = call_tool cfg w name (PDict [])
       \<and> (\<exists>what. call_tool cfg w name (PDict d) =
             (Inr [TextContent [Lit (''Error: '' @ what @ ''required.'')]], []))"
proof -
  from assms(3,4) have s: "not_supplied d field" by (simp add: not_supplied_def)
  have e: "not_supplied [] field" by simp
  note a = required_not_supplied [OF assms(1) assms(2) s, of cfg w]
  note b = required_not_supplied [OF assms(1) assms(2) e, of cfg w]
  have same: "call_tool cfg w name (PDict d) = call_tool cfg w name (PDict [])"
    using a b by (elim disjE conjE) simp_all
  from a have "\<exists>what. call_tool cfg w name (PDict d) =
             (Inr [TextContent [Lit (''Error: '' @ what @ ''required.'')]], [])"
    by (rule required_text_cases)
  with same show ?thesis by (intro conjI)
qed

theorem falsy_argument_rejected_witness:
  "''notion_update_page_content'' \<in> set known_tools
   \<and> ''content'' \<in> set (required_fields ''notion_update_page_content'')
   \<and> dict_lookup [(PStr ''page_id'', PStr ''p1''), (PStr ''content'', PList [])]
         (PStr ''content'') = Some (PList [])
   \<and> \<not> truthy (PList [])
   \<and> call_tool example_config accepting_api ''notion_update_page_content''
         (PDict [(PStr ''page_id'', PStr ''p1''), (PStr ''content'', PList [])]) =
       call_tool example_config accepting_api ''notion_update_page_content'' (PDict [])
   \<and> (\<exists>what. call_tool example_config accepting_api ''notion_update_page_content''
                 (PDict [(PStr ''page_id'', PStr ''p1''), (PStr ''content'', PList [])]) =
               (Inr [TextContent [Lit (''Error: '' @ what @ ''required.'')]], []))
   \<and> ''notion_update_status'' \<in> set known_tools
   \<and> ''page_id'' \<in> set (required_fields ''notion_update_status'')
   \<and> dict_lookup [(PStr ''page_id'', PStr []), (PStr ''target_status'', PStr ''Done'')]
         (PStr ''page_id'') = Some (PStr [])
   \<and> \<not> truthy (PStr [])
   \<and> call_tool example_config accepting_api ''notion_update_status''
         (PDict [(PStr ''page_id'', PStr []), (PStr ''target_status'', PStr ''Done'')]) =
       call_tool example_config accepting_api ''notion_update_status'' (PDict [])"
proof -
  have h1: "''notion_update_page_content'' \<in> set known_tools"
    by (simp add: known_tools_iff)
  have h2: "''content'' \<in> set (required_fields ''notion_update_page_content'')"
    by (simp add: required_fields_simps)
  have h3: "dict_lookup [(PStr ''page_id'', PStr ''p1''), (PStr ''content'', PList [])]
         (PStr ''content'') = Some (PList [])"
    by simp
  have h4: "\<not> truthy (PList [])" by simp
  note h5 = falsy_argument_rejected [OF h1 h2 h3 h4, of example_config accepting_api]
  have g1: "''notion_update_status'' \<in> set known_tools"
    by (simp add: known_tools_iff)
  have g2: "''page_id'' \<in> set (required_fields ''notion_update_status'')"
    by (simp add: required_fields_simps)
  have g3: "dict_lookup [(PStr ''page_id'', PStr []), (PStr ''target_status'', PStr ''Done'')]
         (PStr ''page_id'') = Some (PStr [])"
    by simp
  have g4: "\<not> truthy (PStr [])" by simp
  note g5 = falsy_argument_rejected [OF g1 g2 g3 g4, of example_config accepting_api]
  show ?thesis
    by (intro conjI) (rule h1, rule h2, rule h3, rule h4, rule h5 [THEN conjunct1],
      rule h5 [THEN conjunct2], rule g1, rule g2, rule g3, rule g4, rule g5 [THEN conjunct1])
qed

section \<open>The block codec, read direction\<close>

lemma run_text_get:
  "run_text run = Some s \<Longrightarrow> py_get run (PStr ''plain_text'') (PStr '''') = Inr (PStr s)"
  by (cases run) (auto split: option.splits pyval.splits)

lemma runs_fragments:
  "map run_text runs = map Some frags \<Longrightarrow>
   map_err (\<lambda>x. py_get x (PStr ''plain_text'') (PStr '''')) runs = Inr (map PStr frags)"
proof (induction runs arbitrary: frags)
  case Nil
  then show ?case by simp
next
  case (Cons run runs)
  then obtain s ss where f: "frags = s # ss" "run_text run = Some s"
    "map run_text runs = map Some ss"
    by (cases frags) auto
  from Cons.IH [OF f(3)] run_text_get [OF f(2)] f(1) show ?case by simp
qed

lemma format_block_text_runs:
  assumes "dict_lookup c (PStr ''rich_text'') = Some (PList runs)"
      and "map run_text runs = map Some frags"
  shows "format_block_text bt (PDict c) =
           Inr (PDict [(PStr ''type'', bt), (PStr ''text'', PStr (join_strs '' '' frags))])"
  using assms(1) runs_fragments [OF assms(2)] by (simp add: format_block_text_def)

lemma text_like_iff:
  "t \<in> set text_like \<longleftrightarrow>
     t = ''paragraph'' \<or> t = ''heading_1'' \<or> t = ''heading_2'' \<or> t = ''heading_3''
     \<or> t = ''bulleted_list_item'' \<or> t = ''numbered_list_item''"
  by (simp add: text_like_def)

lemma format_block_text_like:
  assumes "dict_lookup b (PStr ''type'') = Some (PStr t)"
      and "t \<in> set text_like"
      and "dict_lookup b (PStr t) = Some content"
  shows "format_block (PDict b) = format_block_text (PStr t) content"
proof -
  from assms(2) have "t \<noteq> []" by (auto simp: text_like_iff)
  with assms show ?thesis by (auto simp: format_block_def text_like_iff)
qed

text \<open>
  C6. For a block object: when its type tag is absent (missing, or false under truth
  value testing, as \<open>None\<close> and \<open>""\<close> are), \<open>format_block\<close> returns
  \<open>None\<close>; when the tag is one of paragraph, heading_1, heading_2, heading_3,
  bulleted_list_item, numbered_list_item, it returns \<open>{type, text}\<close> where
  \<open>text\<close> is the plain-text fragments of that kind's \<open>rich_text\<close> runs joined
  with single spaces; for every other tag it returns \<open>{type, content}\<close> with the
  payload stored under the tag unchanged (\<open>{}\<close> when there is none).
\<close>

theorem format_block_cases:
  "(not_supplied b ''type'' \<longrightarrow> format_block (PDict b) = Inr PNone)
   \<and> (dict_lookup b (PStr ''type'') = Some (PStr t) \<and> t \<in> set text_like
        \<and> dict_lookup b (PStr t) = Some (PDict c)
        \<and> dict_lookup c (PStr ''rich_text'') = Some (PList runs)
        \<and> map run_text runs = map Some frags
      \<longrightarrow> format_block (PDict b) =
            Inr (PDict [(PStr ''type'', PStr t),
                        (PStr ''text'', PStr (join_strs '' '' frags))]))
   \<and> (dict_lookup b (PStr ''type'') = Some (PStr t) \<and> t \<noteq> [] \<and> t \<notin> set text_like
      \<longrightarrow> format_block (PDict b) =
            Inr (PDict [(PStr ''type'', PStr t),
                        (PStr ''content'',
                           case dict_lookup b (PStr t) of Some payload \<Rightarrow> payload
                           | None \<Rightarrow> PDict [])]))"
proof (intro conjI impI)
  assume "not_supplied b ''type''"
  then show "format_block (PDict b) = Inr PNone"
    by (auto simp: format_block_def not_supplied_def split: option.splits)
next
  assume a: "dict_lookup b (PStr ''type'') = Some (PStr t) \<and> t \<in> set text_like
        \<and> dict_lookup b (PStr t) = Some (PDict c)
        \<and> dict_lookup c (PStr ''rich_text'') = Some (PList runs)
        \<and> map run_text runs = map Some frags"
  note a1 = a [THEN conjunct1]
  note a2 = a [THEN conjunct2, THEN conjunct1]
  note a3 = a [THEN conjunct2, THEN conjunct2, THEN conjunct1]
  note a4 = a [THEN conjunct2, THEN conjunct2, THEN conjunct2, THEN conjunct1]
  note a5 = a [THEN conjunct2, THEN conjunct2, THEN conjunct2, THEN conjunct2]
  have "format_block (PDict b) = format_block_text (PStr t) (PDict c)"
    using a1 a2 a3 by (rule format_block_text_like)
  also have "\<dots> = Inr (PDict [(PStr ''type'', PStr t),
                        (PStr ''text'', PStr (join_strs '' '' frags))])"
    using a4 a5 by (rule format_block_text_runs)
  finally show "format_block (PDict b) =
            Inr (PDict [(PStr ''type'', PStr t),
                        (PStr ''text'', PStr (join_strs '' '' frags))])" .
next
  assume "dict_lookup b (PStr ''type'') = Some (PStr t) \<and> t \<noteq> [] \<and> t \<notin> set text_like"
  then show "format_block (PDict b) =
            Inr (PDict [(PStr ''type'', PStr t),
                        (PStr ''content'',
                           case dict_lookup b (PStr t) of Some payload \<Rightarrow> payload
                           | None \<Rightarrow> PDict [])])"
    by (auto simp: format_block_def text_like_iff split: option.splits)
qed

theorem format_block_cases_witness:
  "dict_lookup [(PStr ''type'', PStr ''paragraph''),
                (PStr ''paragraph'', PDict [(PStr ''rich_text'', PList
                   [PDict [(PStr ''plain_text'', PStr ''Hello'')],
                    PDict [(PStr ''plain_text'', PStr '' '')],
                    PDict [(PStr ''plain_text'', PStr ''world'')]])])]
      (PStr ''type'') = Some (PStr ''paragraph'')
   \<and> ''paragraph'' \<in> set text_like
   \<and> map run_text [PDict [(PStr ''plain_text'', PStr ''Hello'')],
                     PDict [(PStr ''plain_text'', PStr '' '')],
                     PDict [(PStr ''plain_text'', PStr ''world'')]] =
       map Some [''Hello'', '' '', ''world'']
   \<and> format_block (PDict
         [(PStr ''type'', PStr ''paragraph''),
          (PStr ''paragraph'', PDict [(PStr ''rich_text'', PList
             [PDict [(PStr ''plain_text'', PStr ''Hello'')],
              PDict [(PStr ''plain_text'', PStr '' '')],
              PDict [(PStr ''plain_text'', PStr ''world'')]])])]) =
       Inr (PDict [(PStr ''type'', PStr ''paragraph''), (PStr ''text'', PStr ''Hello   world'')])
   \<and> not_supplied [(PStr ''object'', PStr ''block'')] ''type''
   \<and> format_block (PDict [(PStr ''object'', PStr ''block'')]) = Inr PNone
   \<and> ''divider'' \<noteq> [] \<and> ''divider'' \<notin> set text_like
   \<and> format_block (PDict [(PStr ''type'', PStr ''divider''), (PStr ''divider'', PDict [])]) =
       Inr (PDict [(PStr ''type'', PStr ''divider''), (PStr ''content'', PDict [])])"
proof -
  let ?runs = "[PDict [(PStr ''plain_text'', PStr ''Hello'')],
                PDict [(PStr ''plain_text'', PStr '' '')],
                PDict [(PStr ''plain_text'', PStr ''world'')]]"
  let ?c = "[(PStr ''rich_text'', PList ?runs)]"
  let ?b = "[(PStr ''type'', PStr ''paragraph''), (PStr ''paragraph'', PDict ?c)]"
  have h1: "dict_lookup ?b (PStr ''type'') = Some (PStr ''paragraph'')" by simp
  have h2: "''paragraph'' \<in> set text_like" by (simp add: text_like_iff)
  have h3: "dict_lookup ?b (PStr ''paragraph'') = Some (PDict ?c)" by simp
  have h4: "dict_lookup ?c (PStr ''rich_text'') = Some (PList ?runs)" by simp
  have h5: "map run_text ?runs = map Some [''Hello'', '' '', ''world'']" by simp
  have j: "join_strs '' '' [''Hello'', '' '', ''world''] = ''Hello   world''" by simp
  from format_block_cases [of ?b "''paragraph''" ?c ?runs "[''Hello'', '' '', ''world'']",
      THEN conjunct2, THEN conjunct1, rule_format, OF conjI [OF h1 conjI [OF h2
        conjI [OF h3 conjI [OF h4 h5]]]]]
  have r2: "format_block (PDict ?b) =
       Inr (PDict [(PStr ''type'', PStr ''paragraph''), (PStr ''text'', PStr ''Hello   world'')])"
    unfolding j .
  have g1: "not_supplied [(PStr ''object'', PStr ''block'')] ''type''"
    by (simp add: not_supplied_def)
  from format_block_cases [of "[(PStr ''object'', PStr ''block'')]" "[]" "[]" "[]" "[]",
      THEN conjunct1, rule_format, OF g1]
  have r1: "format_block (PDict [(PStr ''object'', PStr ''block'')]) = Inr PNone" .
  have k1: "dict_lookup [(PStr ''type'', PStr ''divider''), (PStr ''divider'', PDict [])]
      (PStr ''type'') = Some (PStr ''divider'')" by simp
  have k2: "''divider'' \<noteq> []" by simp
  have k3: "''divider'' \<notin> set text_like" by (simp add: text_like_iff)
  from format_block_cases [of "[(PStr ''type'', PStr ''divider''), (PStr ''divider'', PDict [])]"
      "''divider''" "[]" "[]" "[]",
      THEN conjunct2, THEN conjunct2, rule_format, OF conjI [OF k1 conjI [OF k2 k3]]]
  have r3: "format_block (PDict [(PStr ''type'', PStr ''divider''), (PStr ''divider'', PDict [])]) =
       Inr (PDict [(PStr ''type'', PStr ''divider''), (PStr ''content'', PDict [])])"
    by simp
  show ?thesis
    by (intro conjI) (rule h1, rule h2, rule h5, rule r2, rule g1, rule r1, rule k2, rule k3,
      rule r3)
qed

section \<open>The property codec, read direction\<close>

text \<open>
  C5. For a property object whose type tag is a str outside title, rich_text, select,
  multi_select and date, \<open>format_property_value\<close> returns the value stored under
  that tag, unchanged; for the input \<open>None\<close> it returns \<open>None\<close>.
\<close>

theorem format_property_value_passthrough:
  "(dict_lookup p (PStr ''type'') = Some (PStr t)
      \<and> t \<notin> set [''title'', ''rich_text'', ''select'', ''multi_select'', ''date'']
      \<and> dict_lookup p (PStr t) = Some v
    \<longrightarrow> format_property_value (PDict p) = Inr v)
   \<and> format_property_value PNone = Inr PNone"
proof (intro conjI impI)
  assume a: "dict_lookup p (PStr ''type'') = Some (PStr t)
      \<and> t \<notin> set [''title'', ''rich_text'', ''select'', ''multi_select'', ''date'']
      \<and> dict_lookup p (PStr t) = Some v"
  then have "p \<noteq> []" by auto
  with a show "format_property_value (PDict p) = Inr v"
    by (simp add: format_property_value_def)
next
  show "format_property_value PNone = Inr PNone"
    by (simp add: format_property_value_def)
qed

theorem format_property_value_passthrough_witness:
  "dict_lookup [(PStr ''id'', PStr ''abc''), (PStr ''type'', PStr ''number''),
                (PStr ''number'', PInt 42)] (PStr ''type'') = Some (PStr ''number'')
   \<and> ''number'' \<notin> set [''title'', ''rich_text'', ''select'', ''multi_select'', ''date'']
   \<and> dict_lookup [(PStr ''id'', PStr ''abc''), (PStr ''type'', PStr ''number''),
                (PStr ''number'', PInt 42)] (PStr ''number'') = Some (PInt 42)
   \<and> format_property_value (PDict [(PStr ''id'', PStr ''abc''), (PStr ''type'', PStr ''number''),
                (PStr ''number'', PInt 42)]) = Inr (PInt 42)"
proof -
  let ?p = "[(PStr ''id'', PStr ''abc''), (PStr ''type'', PStr ''number''),
             (PStr ''number'', PInt 42)]"
  have h1: "dict_lookup ?p (PStr ''type'') = Some (PStr ''number'')" by simp
  have h2: "''number'' \<notin> set [''title'', ''rich_text'', ''select'', ''multi_select'', ''date'']"
    by simp
  have h3: "dict_lookup ?p (PStr ''number'') = Some (PInt 42)" by simp
  note r = format_property_value_passthrough [of ?p "''number''" "PInt 42",
      THEN conjunct1, rule_format, OF conjI [OF h1 conjI [OF h2 h3]]]
  show ?thesis by (intro conjI) (rule h1, rule h2, rule h3, rule r)
qed

text \<open>
  C7. \<open>extract_select\<close> returns the name of the selected option when the property's
  type tag is \<open>select\<close> and a selection is there; it returns the empty str when the
  tag is something else, when there is no selection (the key \<open>select\<close> missing, or
  its value \<open>None\<close>), and on the input \<open>None\<close>. The empty str, not \<open>None\<close>.
\<close>

theorem extract_select_cases:
  "(dict_lookup p (PStr ''type'') = Some (PStr ''select'')
      \<and> dict_lookup p (PStr ''select'') = Some (PDict sel)
      \<and> dict_lookup sel (PStr ''name'') = Some n
    \<longrightarrow> extract_select (PDict p) = Inr n)
   \<and> (dict_lookup p (PStr ''type'') \<noteq> Some (PStr ''select'')
    \<longrightarrow> extract_select (PDict p) = Inr (PStr ''''))
   \<and> (not_supplied p ''select'' \<longrightarrow> extract_select (PDict p) = Inr (PStr ''''))
   \<and> extract_select PNone = Inr (PStr '''')"
proof (intro conjI impI)
  assume a: "dict_lookup p (PStr ''type'') = Some (PStr ''select'')
      \<and> dict_lookup p (PStr ''select'') = Some (PDict sel)
      \<and> dict_lookup sel (PStr ''name'') = Some n"
  then have "p \<noteq> []" "sel \<noteq> []" by auto
  with a show "extract_select (PDict p) = Inr n"
    by (simp add: extract_select_def)
next
  assume "dict_lookup p (PStr ''type'') \<noteq> Some (PStr ''select'')"
  then show "extract_select (PDict p) = Inr (PStr '''')"
    by (auto simp: extract_select_def split: option.splits)
next
  assume "not_supplied p ''select''"
  then show "extract_select (PDict p) = Inr (PStr '''')"
    by (auto simp: extract_select_def not_supplied_def split: option.splits)
next
  show "extract_select PNone = Inr (PStr '''')"
    by (simp add: extract_select_def)
qed

theorem extract_select_cases_witness:
  "dict_lookup [(PStr ''type'', PStr ''select''),
                (PStr ''select'', PDict [(PStr ''name'', PStr ''Done'')])]
      (PStr ''type'') = Some (PStr ''select'')
   \<and> dict_lookup [(PStr ''name'', PStr ''Done'')] (PStr ''name'') = Some (PStr ''Done'')
   \<and> extract_select (PDict [(PStr ''type'', PStr ''select''),
          (PStr ''select'', PDict [(PStr ''name'', PStr ''Done'')])]) = Inr (PStr ''Done'')
   \<and> not_supplied [(PStr ''type'', PStr ''select''), (PStr ''select'', PNone)] ''select''
   \<and> extract_select (PDict [(PStr ''type'', PStr ''select''), (PStr ''select'', PNone)]) =
       Inr (PStr [])
   \<and> dict_lookup [(PStr ''type'', PStr ''status''),
                (PStr ''status'', PDict [(PStr ''name'', PStr ''Done'')])]
      (PStr ''type'') \<noteq> Some (PStr ''select'')
   \<and> extract_select (PDict [(PStr ''type'', PStr ''status''),
          (PStr ''status'', PDict [(PStr ''name'', PStr ''Done'')])]) = Inr (PStr [])"
proof -
  let ?sel = "[(PStr ''name'', PStr ''Done'')]"
  let ?p = "[(PStr ''type'', PStr ''select''), (PStr ''select'', PDict ?sel)]"
  let ?q = "[(PStr ''type'', PStr ''select''), (PStr ''select'', PNone)]"
  let ?r = "[(PStr ''type'', PStr ''status''), (PStr ''status'', PDict ?sel)]"
  have h1: "dict_lookup ?p (PStr ''type'') = Some (PStr ''select'')" by simp
  have h2: "dict_lookup ?p (PStr ''select'') = Some (PDict ?sel)" by simp
  have h3: "dict_lookup ?sel (PStr ''name'') = Some (PStr ''Done'')" by simp
  note r1 = extract_select_cases [of ?p ?sel "PStr ''Done''", THEN conjunct1, rule_format,
      OF conjI [OF h1 conjI [OF h2 h3]]]
  have g: "not_supplied ?q ''select''" by (simp add: not_supplied_def)
  note r2 = extract_select_cases [of ?q ?sel "PStr ''Done''", THEN conjunct2, THEN conjunct2,
      THEN conjunct1, rule_format, OF g]
  have k: "dict_lookup ?r (PStr ''type'') \<noteq> Some (PStr ''select'')" by simp
  note r3 = extract_select_cases [of ?r ?sel "PStr ''Done''", THEN conjunct2, THEN conjunct1,
      rule_format, OF k]
  show ?thesis
    by (intro conjI) (rule h1, rule h3, rule r1, rule g, rule r2, rule k, rule r3)
qed

section \<open>The block codec, write direction\<close>




section \<open>The status update\<close>

text \<open>
  C2, on the code. For a non-empty str \<open>page_id\<close> and a non-empty str
  \<open>target_status\<close>, \<open>notion_update_status\<close> hands the client one request, a PATCH
  to \<open>pages/{page_id}\<close>. When the API replies, that PATCH is the one request sent and
  the result is a confirmation text that names the new status; when the request fails
  with an \<open>HTTPError\<close>, it is the one request sent and the result is the error text
  with its hints; when the client refuses the URL (\<open>httpx.InvalidURL\<close>, as for a
  \<open>page_id\<close> with a line feed), nothing is sent and the exception propagates.
  The body of the request stores \<open>{"status": {"name": target_status}}\<close> under
  \<open>properties.Status\<close>: the payload of a property of Notion's \<open>status\<close> type. A
  select property is written as \<open>{"select": {"name": ...}}\<close>, and it is as a
  \<open>select\<close> that the listing reads "Status" (\<open>extract_select\<close>, line 231) and that
  the handler's own error text speaks of it (line 293).
\<close>

theorem update_status_request:
  assumes "dict_lookup d (PStr ''page_id'') = Some (PStr page_id)"
      and "page_id \<noteq> []"
      and "dict_lookup d (PStr ''target_status'') = Some (PStr target_status)"
      and "target_status \<noteq> []"
  shows "status_request cfg (PStr page_id) (PStr target_status) =
           \<lparr>req_method = PATCH,
            req_url = [Lit NOTION_BASE_URL, Lit ''/pages/'', Str (PStr page_id)],
            req_headers = headers cfg,
            req_json = Some (PDict
              [(PStr ''properties'', PDict
                 [(PStr ''Status'', PDict
                    [(PStr ''status'', PDict [(PStr ''name'', PStr target_status)])])])])\<rparr>
       \<and> (case w (status_request cfg (PStr page_id) (PStr target_status)) of
            Replied body \<Rightarrow>
              call_tool cfg w ''notion_update_status'' (PDict d) =
                (Inr [TextContent [Lit ''Successfully updated page status to '', Lit [CHR 0x27],
                                   Str (PStr target_status), Lit [CHR 0x27], Lit ''.'']],
                 [status_request cfg (PStr page_id) (PStr target_status)])
          | Failed msg \<Rightarrow>
              (\<exists>hints. call_tool cfg w ''notion_update_status'' (PDict d) =
                 (Inr [TextContent (Lit ''Error updating status: '' # Lit msg # hints)],
                  [status_request cfg (PStr page_id) (PStr target_status)]))
          | Refused \<Rightarrow>
              call_tool cfg w ''notion_update_status'' (PDict d) = (Inl InvalidURL, []))"
proof -
  have c: "call_tool cfg w ''notion_update_status'' (PDict d) =
             notion_update_status cfg w (PDict d)"
    by (simp add: call_tool_simps)
  have q: "status_request cfg (PStr page_id) (PStr target_status) =
           \<lparr>req_method = PATCH,
            req_url = [Lit NOTION_BASE_URL, Lit ''/pages/'', Str (PStr page_id)],
            req_headers = headers cfg,
            req_json = Some (PDict
              [(PStr ''properties'', PDict
                 [(PStr ''Status'', PDict
                    [(PStr ''status'', PDict [(PStr ''name'', PStr target_status)])])])])\<rparr>"
    by (simp add: status_request_def)
  have r: "case w (status_request cfg (PStr page_id) (PStr target_status)) of
            Replied body \<Rightarrow>
              call_tool cfg w ''notion_update_status'' (PDict d) =
                (Inr [TextContent [Lit ''Successfully updated page status to '', Lit [CHR 0x27],
                                   Str (PStr target_status), Lit [CHR 0x27], Lit ''.'']],
                 [status_request cfg (PStr page_id) (PStr target_status)])
          | Failed msg \<Rightarrow>
              (\<exists>hints. call_tool cfg w ''notion_update_status'' (PDict d) =
                 (Inr [TextContent (Lit ''Error updating status: '' # Lit msg # hints)],
                  [status_request cfg (PStr page_id) (PStr target_status)]))
          | Refused \<Rightarrow>
              call_tool cfg w ''notion_update_status'' (PDict d) = (Inl InvalidURL, [])"
  proof (cases "w (status_request cfg (PStr page_id) (PStr target_status))")
    case (Failed msg)
    with assms show ?thesis
      unfolding c by (simp add: notion_update_status_def)
  next
    case Refused
    with assms show ?thesis
      unfolding c by (simp add: notion_update_status_def except_HTTPError_def)
  next
    case (Replied body)
    with assms show ?thesis
      unfolding c by (simp add: notion_update_status_def)
  qed
  from q r show ?thesis by (rule conjI)
qed

theorem update_status_request_witness:
  "dict_lookup [(PStr ''page_id'', PStr ''59833787-2cf9-4fdf-8782-e53db20768a5''),
                (PStr ''target_status'', PStr ''Done'')] (PStr ''page_id'') =
     Some (PStr ''59833787-2cf9-4fdf-8782-e53db20768a5'')
   \<and> ''59833787-2cf9-4fdf-8782-e53db20768a5'' \<noteq> []
   \<and> dict_lookup [(PStr ''page_id'', PStr ''59833787-2cf9-4fdf-8782-e53db20768a5''),
                (PStr ''target_status'', PStr ''Done'')] (PStr ''target_status'') =
     Some (PStr ''Done'')
   \<and> ''Done'' \<noteq> []
   \<and> call_tool example_config url_checking_api ''notion_update_status''
         (PDict [(PStr ''page_id'', PStr ''59833787-2cf9-4fdf-8782-e53db20768a5''),
                 (PStr ''target_status'', PStr ''Done'')]) =
       (Inr [TextContent [Lit ''Successfully updated page status to '', Lit [CHR 0x27],
                          Str (PStr ''Done''), Lit [CHR 0x27], Lit ''.'']],
        [\<lparr>req_method = PATCH,
          req_url = [Lit NOTION_BASE_URL, Lit ''/pages/'',
                     Str (PStr ''59833787-2cf9-4fdf-8782-e53db20768a5'')],
          req_headers = headers example_config,
          req_json = Some (PDict
            [(PStr ''properties'', PDict
               [(PStr ''Status'', PDict
                  [(PStr ''status'', PDict [(PStr ''name'', PStr ''Done'')])])])])\<rparr>])
   \<and> dict_lookup [(PStr ''page_id'', PStr [CHR ''p'', CHR 0x0A, CHR ''1'']),
                (PStr ''target_status'', PStr ''Done'')] (PStr ''page_id'') =
     Some (PStr [CHR ''p'', CHR 0x0A, CHR ''1''])
   \<and> [CHR ''p'', CHR 0x0A, CHR ''1''] \<noteq> []
   \<and> call_tool example_config url_checking_api ''notion_update_status''
         (PDict [(PStr ''page_id'', PStr [CHR ''p'', CHR 0x0A, CHR ''1'']),
                 (PStr ''target_status'', PStr ''Done'')]) =
       (Inl InvalidURL, [])"
proof -
  let ?id = "''59833787-2cf9-4fdf-8782-e53db20768a5''"
  let ?d = "[(PStr ''page_id'', PStr ?id), (PStr ''target_status'', PStr ''Done'')]"
  let ?bad = "[CHR ''p'', CHR 0x0A, CHR ''1'']"
  let ?e = "[(PStr ''page_id'', PStr ?bad), (PStr ''target_status'', PStr ''Done'')]"
  have h1: "dict_lookup ?d (PStr ''page_id'') = Some (PStr ?id)" by simp
  have h2: "?id \<noteq> []" by simp
  have h3: "dict_lookup ?d (PStr ''target_status'') = Some (PStr ''Done'')" by simp
  have h4: "''Done'' \<noteq> []" by simp
  note r = update_status_request [OF h1 h2 h3 h4, of example_config url_checking_api]
  have w1: "url_checking_api (status_request example_config (PStr ?id) (PStr ''Done'')) =
      Replied (Some (PDict []))"
    by (simp add: url_checking_api_def status_request_def NOTION_BASE_URL_def
        control_char_def)
  have "call_tool example_config url_checking_api ''notion_update_status'' (PDict ?d) =
       (Inr [TextContent [Lit ''Successfully updated page status to '', Lit [CHR 0x27],
                          Str (PStr ''Done''), Lit [CHR 0x27], Lit ''.'']],
        [status_request example_config (PStr ?id) (PStr ''Done'')])"
    using r [THEN conjunct2] by (simp only: w1 outcome.case)
  note r1 = this [unfolded r [THEN conjunct1]]
  have g1: "dict_lookup ?e (PStr ''page_id'') = Some (PStr ?bad)" by simp
  have g2: "?bad \<noteq> []" by simp
  have g3: "dict_lookup ?e (PStr ''target_status'') = Some (PStr ''Done'')" by simp
  note s = update_status_request [OF g1 g2 g3 h4, of example_config url_checking_api]
  have w2: "url_checking_api (status_request example_config (PStr ?bad) (PStr ''Done'')) =
      Refused"
    by (simp add: url_checking_api_def status_request_def control_char_def)
  have r2: "call_tool example_config url_checking_api ''notion_update_status'' (PDict ?e) =
       (Inl InvalidURL, [])"
    using s [THEN conjunct2] by (simp only: w2 outcome.case)
  show ?thesis
    by (intro conjI) (rule h1, rule h2, rule h3, rule h4, rule r1, rule g1, rule g2, rule r2)
qed

section \<open>Failures of the external call\<close>

lemma call_tool_never_raises_HTTPError:
  assumes "name \<in> set known_tools"
  shows "fst (call_tool cfg w name arguments) \<noteq> Inl (HTTPError m)"
proof -
  from assms have "name = ''show_all_notion_pages'' \<or> name = ''notion_update_status''
     \<or> name = ''notion_read_page_content'' \<or> name = ''notion_update_page_content''
     \<or> name = ''notion_add_comment''"
    by (simp only: known_tools_iff)
  then show ?thesis
  proof (elim disjE)
    assume n: "name = ''show_all_notion_pages''"
    show ?thesis unfolding n call_tool_simps show_all_notion_pages_def
      by (rule except_HTTPError_never_raises_HTTPError)
  next
    assume n: "name = ''notion_update_status''"
    show ?thesis unfolding n call_tool_simps notion_update_status_def
      by (rule except_HTTPError_never_raises_HTTPError)
  next
    assume n: "name = ''notion_read_page_content''"
    show ?thesis unfolding n call_tool_simps notion_read_page_content_def
      by (rule except_HTTPError_never_raises_HTTPError)
  next
    assume n: "name = ''notion_update_page_content''"
    show ?thesis unfolding n call_tool_simps notion_update_page_content_def
      by (rule except_HTTPError_never_raises_HTTPError)
  next
    assume n: "name = ''notion_add_comment''"
    show ?thesis unfolding n call_tool_simps notion_add_comment_def
      by (rule except_HTTPError_never_raises_HTTPError)
  qed
qed

lemma show_all_failed:
  assumes "r \<in> set (snd (show_all_notion_pages cfg w a))" and "w r = Failed msg"
  shows "fst (show_all_notion_pages cfg w a) =
           Inr [TextContent [Lit ''Error listing pages: '', Lit msg]]"
proof (cases "w (query_request cfg)")
  case (Failed m)
  with assms show ?thesis by (simp add: show_all_notion_pages_def)
next
  case Refused
  with assms have False
    by (simp add: show_all_notion_pages_def)
  then show ?thesis ..
next
  case (Replied body)
  with assms have False
    by (cases body) (auto simp: show_all_notion_pages_def)
  then show ?thesis ..
qed

lemma update_status_failed:
  assumes "r \<in> set (snd (notion_update_status cfg w a))" and "w r = Failed msg"
  shows "\<exists>hints. fst (notion_update_status cfg w a) =
           Inr [TextContent (Lit ''Error updating status: '' # Lit msg # hints)]"
  using assms
  by (auto simp: notion_update_status_def split: sum.splits if_splits outcome.splits)

lemma update_content_failed:
  assumes "r \<in> set (snd (notion_update_page_content cfg w a))" and "w r = Failed msg"
  shows "fst (notion_update_page_content cfg w a) =
           Inr [TextContent [Lit ''Error updating page content: '', Lit msg]]"
  using assms
  by (auto simp: notion_update_page_content_def split: sum.splits if_splits outcome.splits)

lemma add_comment_failed:
  assumes "r \<in> set (snd (notion_add_comment cfg w a))" and "w r = Failed msg"
  shows "fst (notion_add_comment cfg w a) =
           Inr [TextContent [Lit ''Error adding comment: '', Lit msg]]"
  using assms
  by (auto simp: notion_add_comment_def split: sum.splits if_splits outcome.splits)

lemma get_page_content_failed:
  assumes "r \<in> set (snd (get_page_content cfg w pid))" and "w r = Failed msg"
  shows "fst (get_page_content cfg w pid) = Inl (HTTPError msg)"
  using assms
  by (auto simp: get_page_content_def Let_def split: outcome.splits option.splits)

lemma read_page_failed:
  assumes "r \<in> set (snd (notion_read_page_content cfg w a))" and "w r = Failed msg"
  shows "fst (notion_read_page_content cfg w a) =
           Inr [TextContent [Lit ''Error reading page content: '', Lit msg]]"
proof (cases "py_get a (PStr ''page_id'') PNone")
  case (Inl e)
  with assms show ?thesis by (simp add: notion_read_page_content_def)
next
  case (Inr page_id)
  show ?thesis
  proof (cases "truthy page_id")
    case False
    with Inr assms show ?thesis by (simp add: notion_read_page_content_def)
  next
    case True
    obtain x reqs where g: "get_page_content cfg w page_id = (x, reqs)"
      by (cases "get_page_content cfg w page_id")
    with Inr True assms(1) have "r \<in> set reqs"
      by (auto simp: notion_read_page_content_def split: sum.splits)
    with g assms(2) get_page_content_failed [of r cfg w page_id msg]
    have "x = Inl (HTTPError msg)" by simp
    with g Inr True show ?thesis by (simp add: notion_read_page_content_def)
  qed
qed

text \<open>
  C3, as the code has it. For every recognized tool name, every arguments value and
  every behaviour of the API: \<open>call_tool\<close> never raises an \<open>HTTPError\<close>, and when a
  request it issued failed with message \<open>msg\<close>, its result is a textual error result
  that embeds \<open>msg\<close>. (A failure that is not an \<open>HTTPError\<close> is outside every
  \<open>except\<close> clause and propagates.)
\<close>

theorem external_failure_becomes_text:
  assumes "name \<in> set known_tools"
  shows "(\<forall>m. fst (call_tool cfg w name arguments) \<noteq> Inl (HTTPError m))
       \<and> (\<forall>r msg. r \<in> set (snd (call_tool cfg w name arguments)) \<and> w r = Failed msg \<longrightarrow>
            (\<exists>pre post. fst (call_tool cfg w name arguments) =
               Inr [TextContent (Lit pre # Lit msg # post)]))"
proof (intro conjI allI impI)
  fix m
  from assms show "fst (call_tool cfg w name arguments) \<noteq> Inl (HTTPError m)"
    by (rule call_tool_never_raises_HTTPError)
next
  fix r msg
  assume a: "r \<in> set (snd (call_tool cfg w name arguments)) \<and> w r = Failed msg"
  note a1 = a [THEN conjunct1] and a2 = a [THEN conjunct2]
  from assms have "name = ''show_all_notion_pages'' \<or> name = ''notion_update_status''
     \<or> name = ''notion_read_page_content'' \<or> name = ''notion_update_page_content''
     \<or> name = ''notion_add_comment''"
    by (simp only: known_tools_iff)
  then show "\<exists>pre post. fst (call_tool cfg w name arguments) =
               Inr [TextContent (Lit pre # Lit msg # post)]"
  proof (elim disjE)
    assume n: "name = ''show_all_notion_pages''"
    from a1 have "r \<in> set (snd (show_all_notion_pages cfg w arguments))"
      unfolding n call_tool_simps .
    from show_all_failed [OF this a2]
    have e: "fst (call_tool cfg w name arguments) =
        Inr [TextContent (Lit ''Error listing pages: '' # Lit msg # [])]"
      unfolding n call_tool_simps .
    show ?thesis by (intro exI) (rule e)
  next
    assume n: "name = ''notion_update_status''"
    from a1 have "r \<in> set (snd (notion_update_status cfg w arguments))"
      unfolding n call_tool_simps .
    from update_status_failed [OF this a2]
    obtain hints where e: "fst (call_tool cfg w name arguments) =
        Inr [TextContent (Lit ''Error updating status: '' # Lit msg # hints)]"
      unfolding n call_tool_simps by (elim exE)
    show ?thesis by (intro exI) (rule e)
  next
    assume n: "name = ''notion_read_page_content''"
    from a1 have "r \<in> set (snd (notion_read_page_content cfg w arguments))"
      unfolding n call_tool_simps .
    from read_page_failed [OF this a2]
    have e: "fst (call_tool cfg w name arguments) =
        Inr [TextContent (Lit ''Error reading page content: '' # Lit msg # [])]"
      unfolding n call_tool_simps .
    show ?thesis by (intro exI) (rule e)
  next
    assume n: "name = ''notion_update_page_content''"
    from a1 have "r \<in> set (snd (notion_update_page_content cfg w arguments))"
      unfolding n call_tool_simps .
    from update_content_failed [OF this a2]
    have e: "fst (call_tool cfg w name arguments) =
        Inr [TextContent (Lit ''Error updating page content: '' # Lit msg # [])]"
      unfolding n call_tool_simps .
    show ?thesis by (intro exI) (rule e)
  next
    assume n: "name = ''notion_add_comment''"
    from a1 have "r \<in> set (snd (notion_add_comment cfg w arguments))"
      unfolding n call_tool_simps .
    from add_comment_failed [OF this a2]
    have e: "fst (call_tool cfg w name arguments) =
        Inr [TextContent (Lit ''Error adding comment: '' # Lit msg # [])]"
      unfolding n call_tool_simps .
    show ?thesis by (intro exI) (rule e)
  qed
qed

theorem external_failure_becomes_text_witness:
  "''notion_read_page_content'' \<in> set known_tools
   \<and> \<lparr>req_method = GET,
       req_url = [Lit NOTION_BASE_URL, Lit ''/pages/'', Str (PStr ''p1'')],
       req_headers = headers example_config, req_json = None\<rparr>
       \<in> set (snd (call_tool example_config unreachable_api ''notion_read_page_content''
                    (PDict [(PStr ''page_id'', PStr ''p1'')])))
   \<and> unreachable_api
        \<lparr>req_method = GET,
         req_url = [Lit NOTION_BASE_URL, Lit ''/pages/'', Str (PStr ''p1'')],
         req_headers = headers example_config, req_json = None\<rparr> =
      Failed ''503 Service Unavailable''
   \<and> (\<exists>pre post. fst (call_tool example_config unreachable_api ''notion_read_page_content''
                          (PDict [(PStr ''page_id'', PStr ''p1'')])) =
         Inr [TextContent (Lit pre # Lit ''503 Service Unavailable'' # post)])"
proof -
  let ?r = "\<lparr>req_method = GET,
       req_url = [Lit NOTION_BASE_URL, Lit ''/pages/'', Str (PStr ''p1'')],
       req_headers = headers example_config, req_json = None\<rparr>"
  let ?a = "PDict [(PStr ''page_id'', PStr ''p1'')]"
  have h1: "''notion_read_page_content'' \<in> set known_tools"
    by (simp add: known_tools_iff)
  have h2: "?r \<in> set (snd (call_tool example_config unreachable_api
      ''notion_read_page_content'' ?a))"
    by (simp add: call_tool_simps notion_read_page_content_def get_page_content_def
        unreachable_api_def)
  have h3: "unreachable_api ?r = Failed ''503 Service Unavailable''"
    by (simp add: unreachable_api_def)
  note r = external_failure_becomes_text [OF h1, of example_config unreachable_api ?a,
      THEN conjunct2, rule_format, OF conjI [OF h2 h3]]
  show ?thesis by (intro conjI) (rule h1, rule h2, rule h3, rule r)
qed

text \<open>
  C3, as the specification states it, fails: for the recognized tool
  \<open>notion_update_page_content\<close> and the arguments
  \<open>{"page_id": "...", "content": [{"type": "paragraph"}]}\<close> the result is not a
  text. \<open>block["text"]\<close> raises \<open>KeyError\<close> before any request is issued, and
  \<open>except httpx.HTTPError\<close> does not catch it.
\<close>

theorem non_http_failure_propagates:
  "''notion_update_page_content'' \<in> set known_tools
   \<and> call_tool example_config accepting_api ''notion_update_page_content''
        (PDict [(PStr ''page_id'', PStr ''59833787-2cf9-4fdf-8782-e53db20768a5''),
                (PStr ''content'', PList [PDict [(PStr ''type'', PStr ''paragraph'')]])]) =
      (Inl KeyError, [])"
  by (simp add: known_tools_iff call_tool_simps notion_update_page_content_def py_iter_def
      py_subscript_def except_HTTPError_def)

section \<open>The listing\<close>

lemma is_dict_iff: "is_dict v \<longleftrightarrow> (\<exists>d. v = PDict d)"
  by (cases v) simp_all

lemma is_str_iff: "is_str v \<longleftrightarrow> (\<exists>s. v = PStr s)"
  by (cases v) simp_all

lemma is_list_iff: "is_list v \<longleftrightarrow> (\<exists>xs. v = PList xs)"
  by (cases v) simp_all

lemma run_text_field:
  "run_text run \<noteq> None \<Longrightarrow> run_text run = Some (text_of (at_key run ''plain_text''))"
  by (cases run) (auto split: option.splits pyval.splits)

lemma runs_fragments_field:
  "list_all (\<lambda>run. run_text run \<noteq> None) runs \<Longrightarrow>
   map run_text runs = map Some (map (\<lambda>run. text_of (at_key run ''plain_text'')) runs)"
proof (induction runs)
  case Nil
  then show ?case by simp
next
  case (Cons a runs)
  then have "run_text a \<noteq> None" by simp
  from run_text_field [OF this] Cons show ?case by simp
qed

lemma extract_title_property:
  assumes "title_property v"
  shows "extract_text_from_title v =
           Inr (PStr (join_strs '' ''
             (map (\<lambda>run. text_of (at_key run ''plain_text'')) (items_of (at_key v ''title'')))))"
proof -
  from assms obtain d runs where v: "v = PDict d" and t: "at_key v ''title'' = PList runs"
    and r: "list_all (\<lambda>run. run_text run \<noteq> None) runs"
    by (auto simp: title_property_def is_dict_iff is_list_iff)
  from v t have l: "dict_lookup d (PStr ''title'') = Some (PList runs)"
    by (simp split: option.splits)
  then have ne: "d \<noteq> []" by auto
  note f = runs_fragments [OF runs_fragments_field [OF r]]
  show ?thesis
  proof (cases "runs = []")
    case True
    with v t l ne show ?thesis by (simp add: extract_text_from_title_def)
  next
    case False
    with v t l ne f show ?thesis
      by (simp add: extract_text_from_title_def del: map_map)
  qed
qed

lemma option_names:
  "list_all (\<lambda>option. is_dict option \<and> is_str (at_key option ''name'')) opts \<Longrightarrow>
   map_err (\<lambda>item. py_get item (PStr ''name'') (PStr [])) opts =
     Inr (map (\<lambda>option. at_key option ''name'') opts)"
proof (induction opts)
  case Nil
  then show ?case by simp
next
  case (Cons a opts)
  then obtain d s where "a = PDict d" "at_key a ''name'' = PStr s"
    by (auto simp: is_dict_iff is_str_iff)
  with Cons show ?case by (simp split: option.splits)
qed

lemma extract_multi_select_property:
  assumes "multi_select_property v"
  shows "extract_multi_select v =
           Inr (PList (map (\<lambda>option. at_key option ''name'')
                  (items_of (at_key v ''multi_select''))))"
proof -
  from assms obtain d opts where v: "v = PDict d"
    and ty: "at_key v ''type'' = PStr ''multi_select''"
    and m: "at_key v ''multi_select'' = PList opts"
    and o: "list_all (\<lambda>option. is_dict option \<and> is_str (at_key option ''name'')) opts"
    by (auto simp: multi_select_property_def is_dict_iff is_list_iff)
  from v ty have l1: "dict_lookup d (PStr ''type'') = Some (PStr ''multi_select'')"
    by (simp split: option.splits)
  from v m have l2: "dict_lookup d (PStr ''multi_select'') = Some (PList opts)"
    by (simp split: option.splits)
  from l1 have ne: "d \<noteq> []" by auto
  from v m l1 l2 ne option_names [OF o] show ?thesis
    by (simp add: extract_multi_select_def)
qed

lemma extract_select_property:
  assumes "select_property v"
  shows "extract_select v =
           Inr (if at_key v ''select'' = PNone then PStr []
                else at_key (at_key v ''select'') ''name'')"
proof -
  from assms obtain d where v: "v = PDict d"
    and ty: "at_key v ''type'' = PStr ''select''"
    and s: "at_key v ''select'' = PNone
          \<or> is_dict (at_key v ''select'') \<and> is_str (at_key (at_key v ''select'') ''name'')"
    by (auto simp: select_property_def is_dict_iff)
  from v ty have l1: "dict_lookup d (PStr ''type'') = Some (PStr ''select'')"
    by (simp split: option.splits)
  then have ne: "d \<noteq> []" by auto
  from s show ?thesis
  proof
    assume n: "at_key v ''select'' = PNone"
    with v l1 ne show ?thesis
      by (auto simp: extract_select_def split: option.splits)
  next
    assume "is_dict (at_key v ''select'') \<and> is_str (at_key (at_key v ''select'') ''name'')"
    then obtain sel nm where a: "at_key v ''select'' = PDict sel"
      and b: "at_key (PDict sel) ''name'' = PStr nm"
      by (auto simp: is_dict_iff is_str_iff)
    from b have "sel \<noteq> []" by auto
    with a b v l1 ne show ?thesis
      by (auto simp: extract_select_def split: option.splits)
  qed
qed

lemma is_dict_at_key:
  "is_dict (at_key (PDict d) k) \<Longrightarrow> \<exists>e. dict_lookup d (PStr k) = Some (PDict e)"
  by (auto simp: is_dict_iff split: option.splits)

lemma is_str_at_key:
  "is_str (at_key (PDict d) k) \<Longrightarrow> \<exists>s. dict_lookup d (PStr k) = Some (PStr s)"
  by (auto simp: is_str_iff split: option.splits)

lemma format_page_notion_page:
  assumes "notion_page page"
  shows "format_page page = Inr (listing_row page)"
proof -
  from assms obtain d where p: "page = PDict d"
    by (auto simp: notion_page_def is_dict_iff)
  from assms p have "is_str (at_key (PDict d) ''id'')"
    and "is_str (at_key (PDict d) ''created_time'')"
    and "is_str (at_key (PDict d) ''last_edited_time'')"
    and "is_dict (at_key (PDict d) ''properties'')"
    by (simp_all add: notion_page_def)
  then obtain i c e props where
    i: "dict_lookup d (PStr ''id'') = Some (PStr i)" and
    c: "dict_lookup d (PStr ''created_time'') = Some (PStr c)" and
    e: "dict_lookup d (PStr ''last_edited_time'') = Some (PStr e)" and
    ps: "dict_lookup d (PStr ''properties'') = Some (PDict props)"
    using is_str_at_key is_dict_at_key by metis
  from assms p ps have
    T: "title_property (at_key (PDict props) ''Title'')" and
    C: "multi_select_property (at_key (PDict props) ''Clients'')" and
    S: "select_property (at_key (PDict props) ''Status'')"
    by (simp_all add: notion_page_def)
  from T have "is_dict (at_key (PDict props) ''Title'')" by (simp add: title_property_def)
  then obtain td where td: "dict_lookup props (PStr ''Title'') = Some (PDict td)"
    using is_dict_at_key by metis
  from C have "is_dict (at_key (PDict props) ''Clients'')"
    by (simp add: multi_select_property_def)
  then obtain cd where cd: "dict_lookup props (PStr ''Clients'') = Some (PDict cd)"
    using is_dict_at_key by metis
  from S have "is_dict (at_key (PDict props) ''Status'')" by (simp add: select_property_def)
  then obtain sd where sd: "dict_lookup props (PStr ''Status'') = Some (PDict sd)"
    using is_dict_at_key by metis
  from T td have T': "title_property (PDict td)" by simp
  from C cd have C': "multi_select_property (PDict cd)" by simp
  from S sd have S': "select_property (PDict sd)" by simp
  note x1 = extract_title_property [OF T']
  note x2 = extract_multi_select_property [OF C']
  note x3 = extract_select_property [OF S']
  show ?thesis
    unfolding p format_page_def listing_row_def
    by (simp add: i c e ps td cd sd x1 x2 x3 py_replace_hyphen_def del: at_key.simps)
      (simp add: i c e ps td cd sd)
qed

text \<open>
  C4. \<open>show_all_notion_pages\<close> issues one request, the query of the configured
  database with page size 500 sorted by creation time descending, and when the API
  replies with page objects it returns the JSON text of the list that has, for every
  page of the response in order, the object with the keys id, title, clients,
  Created time, Last edited time, url and status: \<open>listing_row\<close>, where title
  joins the "Title" property's runs, clients comes from the "Clients" multi-select,
  status from the "Status" select, and url is \<open>https://www.notion.so/\<close> followed by
  the page id with all hyphens removed.
\<close>

theorem show_all_pages_listing:
  assumes "w (query_request cfg) = Replied (Some (PDict response))"
      and "dict_lookup response (PStr ''results'') = Some (PList pages)"
      and "list_all notion_page pages"
  shows "call_tool cfg w ''show_all_notion_pages'' arguments =
           (Inr [TextContent [Dumps (PList (map listing_row pages))]],
            [\<lparr>req_method = POST,
              req_url = [Lit NOTION_BASE_URL, Lit ''/databases/'', Lit (DATABASE_ID cfg),
                         Lit ''/query''],
              req_headers = headers cfg,
              req_json = Some (PDict
                [(PStr ''page_size'', PInt 500),
                 (PStr ''sorts'', PList [PDict
                    [(PStr ''property'', PStr ''Created time''),
                     (PStr ''timestamp'', PStr ''created_time''),
                     (PStr ''direction'', PStr ''descending'')]])])\<rparr>])"
proof -
  from assms(3) have "list_all (\<lambda>page. format_page page = Inr (listing_row page)) pages"
    by (induction pages) (simp_all add: format_page_notion_page)
  then have m: "map_err format_page pages = Inr (map listing_row pages)"
    by (rule map_err_total)
  have q: "query_request cfg =
            \<lparr>req_method = POST,
              req_url = [Lit NOTION_BASE_URL, Lit ''/databases/'', Lit (DATABASE_ID cfg),
                         Lit ''/query''],
              req_headers = headers cfg,
              req_json = Some (PDict
                [(PStr ''page_size'', PInt 500),
                 (PStr ''sorts'', PList [PDict
                    [(PStr ''property'', PStr ''Created time''),
                     (PStr ''timestamp'', PStr ''created_time''),
                     (PStr ''direction'', PStr ''descending'')]])])\<rparr>"
    by (simp add: query_request_def)
  have "call_tool cfg w ''show_all_notion_pages'' arguments =
          (Inr [TextContent [Dumps (PList (map listing_row pages))]], [query_request cfg])"
    using assms(1,2) m by (simp add: call_tool_simps show_all_notion_pages_def)
  then show ?thesis unfolding q .
qed

theorem show_all_pages_listing_witness:
  "listing_api (query_request example_config) =
     Replied (Some (PDict [(PStr ''object'', PStr ''list''),
                           (PStr ''results'', PList example_pages)]))
   \<and> dict_lookup [(PStr ''object'', PStr ''list''), (PStr ''results'', PList example_pages)]
         (PStr ''results'') = Some (PList example_pages)
   \<and> list_all notion_page example_pages
   \<and> call_tool example_config listing_api ''show_all_notion_pages'' (PDict []) =
       (Inr [TextContent [Dumps (PList
          [PDict [(PStr ''id'', PStr ''59833787-2cf9-4fdf-8782-e53db20768a5''),
                  (PStr ''title'', PStr ''Kickoff''),
                  (PStr ''clients'', PList [PStr ''Acme'']),
                  (PStr ''Created time'', PStr ''2024-05-01T09:00:00.000Z''),
                  (PStr ''Last edited time'', PStr ''2024-05-02T10:30:00.000Z''),
                  (PStr ''url'', PStr ''https://www.notion.so/598337872cf94fdf8782e53db20768a5''),
                  (PStr ''status'', PStr ''Done'')],
           PDict [(PStr ''id'', PStr ''0c6e1f2a-91b4-4c3d-a8e7-5f2d3b4c6a71''),
                  (PStr ''title'', PStr ''Retro''),
                  (PStr ''clients'', PList [PStr ''Acme'']),
                  (PStr ''Created time'', PStr ''2024-05-01T09:00:00.000Z''),
                  (PStr ''Last edited time'', PStr ''2024-05-02T10:30:00.000Z''),
                  (PStr ''url'', PStr ''https://www.notion.so/0c6e1f2a91b44c3da8e75f2d3b4c6a71''),
                  (PStr ''status'', PStr ''Done'')]])]],
        [\<lparr>req_method = POST,
          req_url = [Lit NOTION_BASE_URL, Lit ''/databases/'', Lit (DATABASE_ID example_config),
                     Lit ''/query''],
          req_headers = headers example_config,
          req_json = Some (PDict
            [(PStr ''page_size'', PInt 500),
             (PStr ''sorts'', PList [PDict
                [(PStr ''property'', PStr ''Created time''),
                 (PStr ''timestamp'', PStr ''created_time''),
                 (PStr ''direction'', PStr ''descending'')]])])\<rparr>])"
proof -
  let ?resp = "[(PStr ''object'', PStr ''list''), (PStr ''results'', PList example_pages)]"
  have h1: "listing_api (query_request example_config) = Replied (Some (PDict ?resp))"
    by (simp add: listing_api_def)
  have h2: "dict_lookup ?resp (PStr ''results'') = Some (PList example_pages)"
    by simp
  have h3: "list_all notion_page example_pages"
    by (simp add: example_pages_def example_page_def notion_page_def title_property_def
        multi_select_property_def select_property_def)
  have rows: "map listing_row example_pages =
          [PDict [(PStr ''id'', PStr ''59833787-2cf9-4fdf-8782-e53db20768a5''),
                  (PStr ''title'', PStr ''Kickoff''),
                  (PStr ''clients'', PList [PStr ''Acme'']),
                  (PStr ''Created time'', PStr ''2024-05-01T09:00:00.000Z''),
                  (PStr ''Last edited time'', PStr ''2024-05-02T10:30:00.000Z''),
                  (PStr ''url'', PStr ''https://www.notion.so/598337872cf94fdf8782e53db20768a5''),
                  (PStr ''status'', PStr ''Done'')],
           PDict [(PStr ''id'', PStr ''0c6e1f2a-91b4-4c3d-a8e7-5f2d3b4c6a71''),
                  (PStr ''title'', PStr ''Retro''),
                  (PStr ''clients'', PList [PStr ''Acme'']),
                  (PStr ''Created time'', PStr ''2024-05-01T09:00:00.000Z''),
                  (PStr ''Last edited time'', PStr ''2024-05-02T10:30:00.000Z''),
                  (PStr ''url'', PStr ''https://www.notion.so/0c6e1f2a91b44c3da8e75f2d3b4c6a71''),
                  (PStr ''status'', PStr ''Done'')]]"
    by (simp add: example_pages_def example_page_def listing_row_def)
  note r = show_all_pages_listing [where w = listing_api and cfg = example_config
      and arguments = "PDict []", OF h1 h2 h3, unfolded rows]
  show ?thesis by (intro conjI) (rule h1, rule h2, rule h3, rule r)
qed

end
